theory Spec2Isabelle
  imports Main "HOL-Library.Sublist" "HOL-Library.Word"
begin

section \<open>The command engine of the hwc3 composer service\<close>

text \<open>
  A shallow embedding of \<^verbatim>\<open>src/base/hwc3/ComposerCommandEngine.cpp\<close>. The engine
  owns a command index and a result writer and drives two collaborators, the display
  hardware abstraction \<^verbatim>\<open>mHal\<close> and the resource manager \<^verbatim>\<open>mResources\<close>. Neither
  collaborator is part of the file: they are a parameter of every function below, an
  environment that answers each call, and the engine's state keeps the list of the calls
  made so far, so that theorems can speak about which calls were issued and in which
  order.
\<close>

subsection \<open>Payload types of the AIDL interface\<close>

text \<open>
  The AIDL types are declared outside the file. Identifiers, enum values, file
  descriptors and status codes are machine integers on which the engine does no
  arithmetic: they are \<^typ>\<open>int\<close>. A float is forwarded unchanged: it is its 32-bit
  pattern. A parcelable that wraps one value (\<^verbatim>\<open>ParcelableBlendMode\<close>, \<^verbatim>\<open>PlaneAlpha\<close>,
  \<^verbatim>\<open>ZOrder\<close>, \<^verbatim>\<open>DisplayBrightness\<close>, ...) is identified with that value.
\<close>

type_synonym float32 = "32 word"
type_synonym Point = "int \<times> int"
type_synonym Rect = "int \<times> int \<times> int \<times> int"
type_synonym FRect = "float32 \<times> float32 \<times> float32 \<times> float32"
type_synonym Color = "int \<times> int \<times> int \<times> int"
type_synonym PerFrameMetadata = "int \<times> float32"
type_synonym PerFrameMetadataBlob = "int \<times> int list"
type_synonym AidlNativeHandle = "int list \<times> int list"

text \<open>A \<^verbatim>\<open>buffer_handle_t\<close> is a pointer: null, or a native handle.\<close>

datatype buffer_handle_t = nullptr | Handle AidlNativeHandle

definition makeFromAidl :: "AidlNativeHandle \<Rightarrow> buffer_handle_t" where
  "makeFromAidl h = Handle h"

record Buffer =
  slot :: int
  handle :: "AidlNativeHandle option"
  fence :: int

record ClientTarget =
  ct_buffer :: Buffer
  ct_dataspace :: int
  ct_damage :: "Rect option list"

record LayerCommand =
  layer :: int
  cursorPosition :: "Point option"
  buffer :: "Buffer option"
  damage :: "Rect option list option"
  blendMode :: "int option"
  color :: "Color option"
  composition :: "int option"
  dataspace :: "int option"
  displayFrame :: "Rect option"
  planeAlpha :: "float32 option"
  sidebandStream :: "AidlNativeHandle option"
  sourceCrop :: "FRect option"
  transform :: "int option"
  visibleRegion :: "Rect option list option"
  z :: "int option"
  colorTransform :: "float32 list option"
  whitePointNits :: "float32 option"
  perFrameMetadata :: "PerFrameMetadata option list option"
  perFrameMetadataBlob :: "PerFrameMetadataBlob option list option"

record DisplayCommand =
  display :: int
  layers :: "LayerCommand list"
  colorTransformMatrix :: "float32 list option"
  brightness :: "float32 option"
  clientTarget :: "ClientTarget option"
  virtualDisplayOutputBuffer :: "Buffer option"
  expectedPresentTime :: "int option"
  validateDisplay :: bool
  acceptDisplayChanges :: bool
  presentDisplay :: bool
  presentOrValidateDisplay :: bool

subsection \<open>Status codes\<close>

text \<open>
  Modelled from the spec: the status codes of \<^verbatim>\<open>hardware/hwcomposer2.h\<close> and the AIDL
  constant \<^verbatim>\<open>IComposerClient::EX_NOT_VALIDATED\<close>, whose declarations are not under
  \<^verbatim>\<open>src/\<close>. The spec names a success status ("no changes needed"), the status "has
  changes" and the failure kinds; the values are the ones of those headers. The engine
  tests a status with \<^verbatim>\<open>if (err)\<close> and \<^verbatim>\<open>if (!err)\<close>, so success is 0.
\<close>

definition HWC2_ERROR_NONE :: int where
  "HWC2_ERROR_NONE = 0"

definition HWC2_ERROR_HAS_CHANGES :: int where
  "HWC2_ERROR_HAS_CHANGES = 5"

definition EX_NOT_VALIDATED :: int where
  "EX_NOT_VALIDATED = 7"

subsection \<open>The collaborators\<close>

text \<open>The calls the engine makes on \<^verbatim>\<open>mHal\<close> and on \<^verbatim>\<open>mResources\<close>, with their arguments.\<close>

datatype call =
    SetColorTransform int "float32 list"
  | SetClientTarget int buffer_handle_t int int "Rect option list"
  | SetOutputBuffer int buffer_handle_t int
  | SetDisplayBrightness int float32
  | SetExpectedPresentTime int "int option"
  | ValidateDisplay int
  | GetHasClientComposition int
  | AcceptDisplayChanges int
  | PresentDisplay int
  | SetLayerCursorPosition int int int int
  | SetLayerBuffer int int buffer_handle_t int
  | SetLayerSurfaceDamage int int "Rect option list"
  | SetLayerBlendMode int int int
  | SetLayerColor int int Color
  | SetLayerCompositionType int int int
  | SetLayerDataspace int int int
  | SetLayerDisplayFrame int int Rect
  | SetLayerPlaneAlpha int int float32
  | SetLayerSidebandStream int int buffer_handle_t
  | SetLayerSourceCrop int int FRect
  | SetLayerTransform int int int
  | SetLayerVisibleRegion int int "Rect option list"
  | SetLayerZOrder int int int
  | SetLayerColorTransform int int "float32 list"
  | SetLayerPerFrameMetadata int int "PerFrameMetadata option list"
  | SetLayerPerFrameMetadataBlobs int int "PerFrameMetadataBlob option list"
  | CreateReleaser bool
  | GetDisplayClientTarget int int bool buffer_handle_t
  | GetDisplayOutputBuffer int int bool buffer_handle_t
  | GetLayerBuffer int int int bool buffer_handle_t
  | GetLayerSidebandStream int int buffer_handle_t
  | MustValidateDisplay int
  | SetDisplayMustValidateState int bool

text \<open>
  The calls that go to the hardware abstraction; the others go to the resource manager.
\<close>

fun isHalCall :: "call \<Rightarrow> bool" where
  "isHalCall (CreateReleaser _) = False"
| "isHalCall (GetDisplayClientTarget _ _ _ _) = False"
| "isHalCall (GetDisplayOutputBuffer _ _ _ _) = False"
| "isHalCall (GetLayerBuffer _ _ _ _ _) = False"
| "isHalCall (GetLayerSidebandStream _ _ _) = False"
| "isHalCall (MustValidateDisplay _) = False"
| "isHalCall (SetDisplayMustValidateState _ _) = False"
| "isHalCall _ = True"

text \<open>
  What a call gives back: its return value (a status, or the boolean of
  \<^verbatim>\<open>mustValidateDisplay\<close>) and its out-parameters. A call reads the fields it has.
\<close>

record reply =
  status :: int
  boolOut :: bool
  bufferOut :: buffer_handle_t
  changedLayers :: "int list"
  compositionTypes :: "int list"
  displayRequestMask :: int
  requestedLayers :: "int list"
  requestMasks :: "int list"
  presentFence :: int
  fenceLayers :: "int list"
  fences :: "int list"

text \<open>
  The collaborators together: given the calls made so far and the next call, the answer.
  Any deterministic hardware abstraction and resource manager is such a function.
\<close>

type_synonym env = "call list \<Rightarrow> call \<Rightarrow> reply"

subsection \<open>The result writer\<close>

text \<open>
  Modelled from the spec: the class \<^verbatim>\<open>ComposerServiceWriter\<close> behind \<^verbatim>\<open>mWriter\<close> is
  not under \<^verbatim>\<open>src/\<close>. The spec's result accumulator records each outcome in the order
  it is handed over, an error with the command index it is given, and is drained at the
  end of a batch. Each entry keeps the arguments of the writer call that made it.
\<close>

datatype PresentOrValidateResult = Validated | Presented

datatype CommandResultPayload =
    CommandError nat int
  | ChangedCompositionTypes int "int list" "int list"
  | DisplayRequest int int "int list" "int list"
  | PresentFence int int
  | ReleaseFences int "int list" "int list"
  | PresentOrValidate int PresentOrValidateResult

subsection \<open>The engine\<close>

record engine =
  mCommandIndex :: nat
  mWriter :: "CommandResultPayload list"
  calls :: "call list"

definition emplace :: "CommandResultPayload \<Rightarrow> engine \<Rightarrow> engine" where
  "emplace p s = s\<lparr>mWriter := mWriter s @ [p]\<rparr>"

definition setError :: "nat \<Rightarrow> int \<Rightarrow> engine \<Rightarrow> engine" where
  "setError i e s = emplace (CommandError i e) s"

definition setChangedCompositionTypes :: "int \<Rightarrow> int list \<Rightarrow> int list \<Rightarrow> engine \<Rightarrow> engine" where
  "setChangedCompositionTypes d ls ts s = emplace (ChangedCompositionTypes d ls ts) s"

definition setDisplayRequests :: "int \<Rightarrow> int \<Rightarrow> int list \<Rightarrow> int list \<Rightarrow> engine \<Rightarrow> engine" where
  "setDisplayRequests d m ls ms s = emplace (DisplayRequest d m ls ms) s"

definition setPresentFence :: "int \<Rightarrow> int \<Rightarrow> engine \<Rightarrow> engine" where
  "setPresentFence d f s = emplace (PresentFence d f) s"

definition setReleaseFences :: "int \<Rightarrow> int list \<Rightarrow> int list \<Rightarrow> engine \<Rightarrow> engine" where
  "setReleaseFences d ls fs s = emplace (ReleaseFences d ls fs) s"

definition setPresentOrValidateResult :: "int \<Rightarrow> PresentOrValidateResult \<Rightarrow> engine \<Rightarrow> engine" where
  "setPresentOrValidateResult d r s = emplace (PresentOrValidate d r) s"

definition getPendingCommandResults :: "engine \<Rightarrow> CommandResultPayload list \<times> engine" where
  "getPendingCommandResults s = (mWriter s, s\<lparr>mWriter := []\<rparr>)"

text \<open>
  A call on a collaborator: the environment answers from the calls made before, and the
  call joins them.
\<close>

definition invoke :: "env \<Rightarrow> call \<Rightarrow> engine \<Rightarrow> reply \<times> engine" where
  "invoke env c s = (env (calls s) c, s\<lparr>calls := calls s @ [c]\<rparr>)"

text \<open>
  The body shared by the setters that forward one value (\<^verbatim>\<open>executeSetColorTransform\<close>,
  \<^verbatim>\<open>executeSetDisplayBrightness\<close>, \<^verbatim>\<open>executeAcceptDisplayChanges\<close> and fourteen of the
  layer setters): call the hardware abstraction and, \<^verbatim>\<open>if (err)\<close>, record the status
  against the current command index.
\<close>

definition halSetter :: "env \<Rightarrow> call \<Rightarrow> engine \<Rightarrow> engine" where
  "halSetter env c s =
     (let (r, s1) = invoke env c s
      in if status r \<noteq> 0 then setError (mCommandIndex s1) (status r) s1 else s1)"

text \<open>
  The body shared by \<^verbatim>\<open>executeSetClientTarget\<close>, \<^verbatim>\<open>executeSetOutputBuffer\<close> and
  \<^verbatim>\<open>executeSetLayerBuffer\<close>: create the releaser, resolve the buffer through the
  resource manager and, \<^verbatim>\<open>if (!err)\<close>, hand the resolved buffer to the hardware
  abstraction; a failure of either call is recorded against the current command index.
  \<open>getBuffer\<close> is the resolving call and \<open>setBuffer\<close> the hardware call for the
  resolved buffer.
\<close>

definition resolveAndSet ::
    "env \<Rightarrow> call \<Rightarrow> (buffer_handle_t \<Rightarrow> call) \<Rightarrow> engine \<Rightarrow> engine" where
  "resolveAndSet env getBuffer setBuffer s =
     (let (b, s1) = invoke env (CreateReleaser True) s;
          (r, s2) = invoke env getBuffer s1
      in if status r = 0
         then (let (r', s3) = invoke env (setBuffer (bufferOut r)) s2
               in if status r' \<noteq> 0 then setError (mCommandIndex s3) (status r') s3 else s3)
         else setError (mCommandIndex s2) (status r) s2)"

text \<open>
  \<^verbatim>\<open>useCache\<close> is \<^verbatim>\<open>!buffer.handle\<close>, and the handle passed on is null when the cache
  is used.
\<close>

definition useCache :: "Buffer \<Rightarrow> bool" where
  "useCache b = (handle b = None)"

definition rawHandle :: "Buffer \<Rightarrow> buffer_handle_t" where
  "rawHandle b = (case handle b of None \<Rightarrow> nullptr | Some h \<Rightarrow> makeFromAidl h)"

subsubsection \<open>Display-level operations\<close>

definition executeSetColorTransform :: "env \<Rightarrow> int \<Rightarrow> float32 list \<Rightarrow> engine \<Rightarrow> engine" where
  "executeSetColorTransform env d matrix = halSetter env (SetColorTransform d matrix)"

definition executeSetClientTarget :: "env \<Rightarrow> int \<Rightarrow> ClientTarget \<Rightarrow> engine \<Rightarrow> engine" where
  "executeSetClientTarget env d command =
     resolveAndSet env
       (GetDisplayClientTarget d (slot (ct_buffer command)) (useCache (ct_buffer command))
          (rawHandle (ct_buffer command)))
       (\<lambda>target. SetClientTarget d target (fence (ct_buffer command)) (ct_dataspace command)
          (ct_damage command))"

definition executeSetOutputBuffer :: "env \<Rightarrow> int \<Rightarrow> Buffer \<Rightarrow> engine \<Rightarrow> engine" where
  "executeSetOutputBuffer env d b =
     resolveAndSet env (GetDisplayOutputBuffer d (slot b) (useCache b) (rawHandle b))
       (\<lambda>out. SetOutputBuffer d out (fence b))"

definition executeSetExpectedPresentTimeInternal ::
    "env \<Rightarrow> int \<Rightarrow> int option \<Rightarrow> engine \<Rightarrow> engine" where
  "executeSetExpectedPresentTimeInternal env d t s = snd (invoke env (SetExpectedPresentTime d t) s)"

definition executeValidateDisplayInternal :: "env \<Rightarrow> int \<Rightarrow> engine \<Rightarrow> int \<times> engine" where
  "executeValidateDisplayInternal env d s =
     (let (r, s1) = invoke env (ValidateDisplay d) s;
          (u, s2) = invoke env (SetDisplayMustValidateState d False) s1;
          err = status r
      in if err = HWC2_ERROR_NONE \<or> err = HWC2_ERROR_HAS_CHANGES
         then (err, setDisplayRequests d (displayRequestMask r) (requestedLayers r) (requestMasks r)
                      (setChangedCompositionTypes d (changedLayers r) (compositionTypes r) s2))
         else (err, setError (mCommandIndex s2) err s2))"

definition executeValidateDisplay :: "env \<Rightarrow> int \<Rightarrow> int option \<Rightarrow> engine \<Rightarrow> engine" where
  "executeValidateDisplay env d t s =
     snd (executeValidateDisplayInternal env d (executeSetExpectedPresentTimeInternal env d t s))"

definition executeSetDisplayBrightness :: "env \<Rightarrow> int \<Rightarrow> float32 \<Rightarrow> engine \<Rightarrow> engine" where
  "executeSetDisplayBrightness env d b = halSetter env (SetDisplayBrightness d b)"

definition executeAcceptDisplayChanges :: "env \<Rightarrow> int \<Rightarrow> engine \<Rightarrow> engine" where
  "executeAcceptDisplayChanges env d = halSetter env (AcceptDisplayChanges d)"

definition executePresentDisplay :: "env \<Rightarrow> int \<Rightarrow> engine \<Rightarrow> int \<times> engine" where
  "executePresentDisplay env d s =
     (let (r, s1) = invoke env (PresentDisplay d) s
      in if status r = 0
         then (let s2 = (if presentFence r \<noteq> - 1 then setPresentFence d (presentFence r) s1 else s1)
               in (status r, setReleaseFences d (fenceLayers r) (fences r) s2))
         else (status r, s1))"

definition executePresentOrValidateDisplay :: "env \<Rightarrow> int \<Rightarrow> int option \<Rightarrow> engine \<Rightarrow> engine" where
  "executePresentOrValidateDisplay env d t s =
     (let s1 = executeSetExpectedPresentTimeInternal env d t s;
          (m, s2) = invoke env (MustValidateDisplay d) s1;
          (presentErr, s3) = (if boolOut m then (EX_NOT_VALIDATED, s2) else executePresentDisplay env d s2)
      in if presentErr = 0 then setPresentOrValidateResult d Presented s3
         else
          (let (validateErr, s4) = executeValidateDisplayInternal env d s3
           in if validateErr \<noteq> HWC2_ERROR_NONE \<and> validateErr \<noteq> HWC2_ERROR_HAS_CHANGES then s4
              else
               (let (cannotPresentDirectly, s5) =
                      (if validateErr = HWC2_ERROR_HAS_CHANGES then (True, s4)
                       else (let (q, s') = invoke env (GetHasClientComposition d) s4
                             in (status q = HWC2_ERROR_NONE \<and> boolOut q, s')))
                in if cannotPresentDirectly then setPresentOrValidateResult d Validated s5
                   else
                    (let s6 = executeAcceptDisplayChanges env d s5;
                         (presentErr', s7) = executePresentDisplay env d s6
                     in if presentErr' = 0 then setPresentOrValidateResult d Presented s7
                        else s7))))"

subsubsection \<open>Layer-level operations\<close>

definition executeSetLayerCursorPosition :: "env \<Rightarrow> int \<Rightarrow> int \<Rightarrow> Point \<Rightarrow> engine \<Rightarrow> engine" where
  "executeSetLayerCursorPosition env d l p = halSetter env (SetLayerCursorPosition d l (fst p) (snd p))"

definition executeSetLayerBuffer :: "env \<Rightarrow> int \<Rightarrow> int \<Rightarrow> Buffer \<Rightarrow> engine \<Rightarrow> engine" where
  "executeSetLayerBuffer env d l b =
     resolveAndSet env (GetLayerBuffer d l (slot b) (useCache b) (rawHandle b))
       (\<lambda>hwcBuffer. SetLayerBuffer d l hwcBuffer (fence b))"

definition executeSetLayerSurfaceDamage ::
    "env \<Rightarrow> int \<Rightarrow> int \<Rightarrow> Rect option list \<Rightarrow> engine \<Rightarrow> engine" where
  "executeSetLayerSurfaceDamage env d l v = halSetter env (SetLayerSurfaceDamage d l v)"

definition executeSetLayerBlendMode :: "env \<Rightarrow> int \<Rightarrow> int \<Rightarrow> int \<Rightarrow> engine \<Rightarrow> engine" where
  "executeSetLayerBlendMode env d l v = halSetter env (SetLayerBlendMode d l v)"

definition executeSetLayerColor :: "env \<Rightarrow> int \<Rightarrow> int \<Rightarrow> Color \<Rightarrow> engine \<Rightarrow> engine" where
  "executeSetLayerColor env d l v = halSetter env (SetLayerColor d l v)"

definition executeSetLayerComposition :: "env \<Rightarrow> int \<Rightarrow> int \<Rightarrow> int \<Rightarrow> engine \<Rightarrow> engine" where
  "executeSetLayerComposition env d l v = halSetter env (SetLayerCompositionType d l v)"

definition executeSetLayerDataspace :: "env \<Rightarrow> int \<Rightarrow> int \<Rightarrow> int \<Rightarrow> engine \<Rightarrow> engine" where
  "executeSetLayerDataspace env d l v = halSetter env (SetLayerDataspace d l v)"

definition executeSetLayerDisplayFrame :: "env \<Rightarrow> int \<Rightarrow> int \<Rightarrow> Rect \<Rightarrow> engine \<Rightarrow> engine" where
  "executeSetLayerDisplayFrame env d l v = halSetter env (SetLayerDisplayFrame d l v)"

definition executeSetLayerPlaneAlpha :: "env \<Rightarrow> int \<Rightarrow> int \<Rightarrow> float32 \<Rightarrow> engine \<Rightarrow> engine" where
  "executeSetLayerPlaneAlpha env d l v = halSetter env (SetLayerPlaneAlpha d l v)"

text \<open>
  The sideband stream has a body of its own: the releaser is created with \<^verbatim>\<open>false\<close>,
  and the hardware call stands under \<^verbatim>\<open>if (err)\<close>, where the three buffer setters
  have \<^verbatim>\<open>if (!err)\<close>.
\<close>

definition executeSetLayerSidebandStream ::
    "env \<Rightarrow> int \<Rightarrow> int \<Rightarrow> AidlNativeHandle \<Rightarrow> engine \<Rightarrow> engine" where
  "executeSetLayerSidebandStream env d l sideband s =
     (let (b, s1) = invoke env (CreateReleaser False) s;
          (r, s2) = invoke env (GetLayerSidebandStream d l (makeFromAidl sideband)) s1;
          (err, s3) = (if status r \<noteq> 0
                       then (let (r', s') = invoke env (SetLayerSidebandStream d l (bufferOut r)) s2
                             in (status r', s'))
                       else (status r, s2))
      in if err \<noteq> 0 then setError (mCommandIndex s3) err s3 else s3)"

definition executeSetLayerSourceCrop :: "env \<Rightarrow> int \<Rightarrow> int \<Rightarrow> FRect \<Rightarrow> engine \<Rightarrow> engine" where
  "executeSetLayerSourceCrop env d l v = halSetter env (SetLayerSourceCrop d l v)"

definition executeSetLayerTransform :: "env \<Rightarrow> int \<Rightarrow> int \<Rightarrow> int \<Rightarrow> engine \<Rightarrow> engine" where
  "executeSetLayerTransform env d l v = halSetter env (SetLayerTransform d l v)"

definition executeSetLayerVisibleRegion ::
    "env \<Rightarrow> int \<Rightarrow> int \<Rightarrow> Rect option list \<Rightarrow> engine \<Rightarrow> engine" where
  "executeSetLayerVisibleRegion env d l v = halSetter env (SetLayerVisibleRegion d l v)"

definition executeSetLayerZOrder :: "env \<Rightarrow> int \<Rightarrow> int \<Rightarrow> int \<Rightarrow> engine \<Rightarrow> engine" where
  "executeSetLayerZOrder env d l v = halSetter env (SetLayerZOrder d l v)"

definition executeSetLayerPerFrameMetadata ::
    "env \<Rightarrow> int \<Rightarrow> int \<Rightarrow> PerFrameMetadata option list \<Rightarrow> engine \<Rightarrow> engine" where
  "executeSetLayerPerFrameMetadata env d l v = halSetter env (SetLayerPerFrameMetadata d l v)"

definition executeSetLayerColorTransform ::
    "env \<Rightarrow> int \<Rightarrow> int \<Rightarrow> float32 list \<Rightarrow> engine \<Rightarrow> engine" where
  "executeSetLayerColorTransform env d l v = halSetter env (SetLayerColorTransform d l v)"

definition executeSetLayerPerFrameMetadataBlobs ::
    "env \<Rightarrow> int \<Rightarrow> int \<Rightarrow> PerFrameMetadataBlob option list \<Rightarrow> engine \<Rightarrow> engine" where
  "executeSetLayerPerFrameMetadataBlobs env d l v = halSetter env (SetLayerPerFrameMetadataBlobs d l v)"

subsubsection \<open>The dispatchers\<close>

text \<open>
  The four macros: the operation runs when the field is populated (an optional that
  holds a value, or a flag that is set), and nothing happens otherwise. The two macros
  for flags differ in the arguments they pass on, which here are part of \<open>f\<close>.
\<close>

definition DISPATCH_LAYER_COMMAND :: "'a option \<Rightarrow> ('a \<Rightarrow> engine \<Rightarrow> engine) \<Rightarrow> engine \<Rightarrow> engine" where
  "DISPATCH_LAYER_COMMAND field f s = (case field of None \<Rightarrow> s | Some v \<Rightarrow> f v s)"

definition DISPATCH_DISPLAY_COMMAND :: "'a option \<Rightarrow> ('a \<Rightarrow> engine \<Rightarrow> engine) \<Rightarrow> engine \<Rightarrow> engine" where
  "DISPATCH_DISPLAY_COMMAND field f s = (case field of None \<Rightarrow> s | Some v \<Rightarrow> f v s)"

definition DISPATCH_DISPLAY_BOOL_COMMAND :: "bool \<Rightarrow> (engine \<Rightarrow> engine) \<Rightarrow> engine \<Rightarrow> engine" where
  "DISPATCH_DISPLAY_BOOL_COMMAND field f s = (if field then f s else s)"

definition DISPATCH_DISPLAY_BOOL_COMMAND_AND_DATA ::
    "bool \<Rightarrow> (engine \<Rightarrow> engine) \<Rightarrow> engine \<Rightarrow> engine" where
  "DISPATCH_DISPLAY_BOOL_COMMAND_AND_DATA field f s = (if field then f s else s)"

definition dispatchLayerCommand :: "env \<Rightarrow> int \<Rightarrow> LayerCommand \<Rightarrow> engine \<Rightarrow> engine" where
  "dispatchLayerCommand env d command s0 =
     (let l = layer command;
          s1 = DISPATCH_LAYER_COMMAND (cursorPosition command) (executeSetLayerCursorPosition env d l) s0;
          s2 = DISPATCH_LAYER_COMMAND (buffer command) (executeSetLayerBuffer env d l) s1;
          s3 = DISPATCH_LAYER_COMMAND (damage command) (executeSetLayerSurfaceDamage env d l) s2;
          s4 = DISPATCH_LAYER_COMMAND (blendMode command) (executeSetLayerBlendMode env d l) s3;
          s5 = DISPATCH_LAYER_COMMAND (color command) (executeSetLayerColor env d l) s4;
          s6 = DISPATCH_LAYER_COMMAND (composition command) (executeSetLayerComposition env d l) s5;
          s7 = DISPATCH_LAYER_COMMAND (dataspace command) (executeSetLayerDataspace env d l) s6;
          s8 = DISPATCH_LAYER_COMMAND (displayFrame command) (executeSetLayerDisplayFrame env d l) s7;
          s9 = DISPATCH_LAYER_COMMAND (planeAlpha command) (executeSetLayerPlaneAlpha env d l) s8;
          s10 = DISPATCH_LAYER_COMMAND (sidebandStream command) (executeSetLayerSidebandStream env d l) s9;
          s11 = DISPATCH_LAYER_COMMAND (sourceCrop command) (executeSetLayerSourceCrop env d l) s10;
          s12 = DISPATCH_LAYER_COMMAND (transform command) (executeSetLayerTransform env d l) s11;
          s13 = DISPATCH_LAYER_COMMAND (visibleRegion command) (executeSetLayerVisibleRegion env d l) s12;
          s14 = DISPATCH_LAYER_COMMAND (z command) (executeSetLayerZOrder env d l) s13;
          s15 = DISPATCH_LAYER_COMMAND (colorTransform command) (executeSetLayerColorTransform env d l) s14;
          s16 = DISPATCH_LAYER_COMMAND (perFrameMetadata command)
                  (executeSetLayerPerFrameMetadata env d l) s15
      in DISPATCH_LAYER_COMMAND (perFrameMetadataBlob command)
           (executeSetLayerPerFrameMetadataBlobs env d l) s16)"

text \<open>The loop over \<^verbatim>\<open>command.layers\<close>.\<close>

fun dispatchLayerCommands :: "env \<Rightarrow> int \<Rightarrow> LayerCommand list \<Rightarrow> engine \<Rightarrow> engine" where
  "dispatchLayerCommands env d [] s = s"
| "dispatchLayerCommands env d (layerCmd # rest) s =
     dispatchLayerCommands env d rest (dispatchLayerCommand env d layerCmd s)"

definition dispatchDisplayCommand :: "env \<Rightarrow> DisplayCommand \<Rightarrow> engine \<Rightarrow> engine" where
  "dispatchDisplayCommand env command s =
     (let d = display command;
          s0 = dispatchLayerCommands env d (layers command) s;
          s1 = DISPATCH_DISPLAY_COMMAND (colorTransformMatrix command) (executeSetColorTransform env d) s0;
          s2 = DISPATCH_DISPLAY_COMMAND (clientTarget command) (executeSetClientTarget env d) s1;
          s3 = DISPATCH_DISPLAY_COMMAND (virtualDisplayOutputBuffer command)
                 (executeSetOutputBuffer env d) s2;
          s4 = DISPATCH_DISPLAY_COMMAND (brightness command) (executeSetDisplayBrightness env d) s3;
          s5 = DISPATCH_DISPLAY_BOOL_COMMAND_AND_DATA (validateDisplay command)
                 (executeValidateDisplay env d (expectedPresentTime command)) s4;
          s6 = DISPATCH_DISPLAY_BOOL_COMMAND (acceptDisplayChanges command)
                 (executeAcceptDisplayChanges env d) s5;
          s7 = DISPATCH_DISPLAY_BOOL_COMMAND (presentDisplay command)
                 (\<lambda>s. snd (executePresentDisplay env d s)) s6
      in DISPATCH_DISPLAY_BOOL_COMMAND_AND_DATA (presentOrValidateDisplay command)
           (executePresentOrValidateDisplay env d (expectedPresentTime command)) s7)"

subsubsection \<open>The batch\<close>

text \<open>
  \<^verbatim>\<open>mCommandIndex\<close> is declared in the header, which is not under \<^verbatim>\<open>src/\<close>; the model
  counts in \<^typ>\<open>nat\<close>, so \<^verbatim>\<open>++mCommandIndex\<close> is the successor: it describes the
  engine on batches shorter than the range of the counter. \<^verbatim>\<open>init\<close> makes a fresh, empty
  writer; \<^verbatim>\<open>std::make_unique\<close> does not return null, so \<^verbatim>\<open>init\<close> returns
  \<^verbatim>\<open>NO_ERROR\<close>, which is 0.
\<close>

definition init :: "engine \<Rightarrow> int \<times> engine" where
  "init s = (0, s\<lparr>mWriter := []\<rparr>)"

text \<open>The loop of \<^verbatim>\<open>execute\<close>: dispatch the command, then \<^verbatim>\<open>++mCommandIndex\<close>.\<close>

fun executeLoop :: "env \<Rightarrow> DisplayCommand list \<Rightarrow> engine \<Rightarrow> engine" where
  "executeLoop env [] s = s"
| "executeLoop env (command # rest) s =
     (let s1 = dispatchDisplayCommand env command s
      in executeLoop env rest (s1\<lparr>mCommandIndex := mCommandIndex s1 + 1\<rparr>))"

text \<open>\<^verbatim>\<open>execute\<close> gives its return value, the drained results and the engine afterwards.\<close>

definition execute ::
    "env \<Rightarrow> DisplayCommand list \<Rightarrow> engine \<Rightarrow> int \<times> CommandResultPayload list \<times> engine" where
  "execute env commands s =
     (let s1 = executeLoop env commands (s\<lparr>mCommandIndex := 0\<rparr>);
          (result, s2) = getPendingCommandResults s1
      in (0, result, s2))"

subsection \<open>Notions used by the statements\<close>

text \<open>The command indices of the error entries of a result list, in the order of the list.\<close>

fun errorIndices :: "CommandResultPayload list \<Rightarrow> nat list" where
  "errorIndices [] = []"
| "errorIndices (CommandError i e # ps) = i # errorIndices ps"
| "errorIndices (p # ps) = errorIndices ps"

text \<open>The calls and the result entries that a run from \<open>s\<close> to \<open>s'\<close> has added.\<close>

definition newCalls :: "engine \<Rightarrow> engine \<Rightarrow> call list" where
  "newCalls s s' = drop (length (calls s)) (calls s')"

definition newResults :: "engine \<Rightarrow> engine \<Rightarrow> CommandResultPayload list" where
  "newResults s s' = drop (length (mWriter s)) (mWriter s')"

text \<open>The three hardware operations of the present/validate protocol, among the calls.\<close>

fun isValidateCall :: "call \<Rightarrow> bool" where
  "isValidateCall (ValidateDisplay d) = True"
| "isValidateCall c = False"

fun isAcceptCall :: "call \<Rightarrow> bool" where
  "isAcceptCall (AcceptDisplayChanges d) = True"
| "isAcceptCall c = False"

fun isPresentCall :: "call \<Rightarrow> bool" where
  "isPresentCall (PresentDisplay d) = True"
| "isPresentCall c = False"

text \<open>Whether a result entry is a protocol outcome of present-or-validate.\<close>

fun isProtocolOutcome :: "CommandResultPayload \<Rightarrow> bool" where
  "isProtocolOutcome (PresentOrValidate d r) = True"
| "isProtocolOutcome p = False"

text \<open>
  The display command dispatcher in the words of the spec: every layer command in list
  order, then the display-level operations of the populated fields, in the order colour
  transform, client target, output buffer, brightness, validate, accept changes,
  present, present-or-validate.
\<close>

definition displayOperations :: "env \<Rightarrow> DisplayCommand \<Rightarrow> (engine \<Rightarrow> engine) list" where
  "displayOperations env command =
     (let d = display command; t = expectedPresentTime command
      in (case colorTransformMatrix command of None \<Rightarrow> [] | Some m \<Rightarrow> [executeSetColorTransform env d m])
       @ (case clientTarget command of None \<Rightarrow> [] | Some c \<Rightarrow> [executeSetClientTarget env d c])
       @ (case virtualDisplayOutputBuffer command of None \<Rightarrow> [] | Some b \<Rightarrow> [executeSetOutputBuffer env d b])
       @ (case brightness command of None \<Rightarrow> [] | Some b \<Rightarrow> [executeSetDisplayBrightness env d b])
       @ (if validateDisplay command then [executeValidateDisplay env d t] else [])
       @ (if acceptDisplayChanges command then [executeAcceptDisplayChanges env d] else [])
       @ (if presentDisplay command then [\<lambda>s. snd (executePresentDisplay env d s)] else [])
       @ (if presentOrValidateDisplay command then [executePresentOrValidateDisplay env d t] else []))"

definition spec_dispatchDisplayCommand :: "env \<Rightarrow> DisplayCommand \<Rightarrow> engine \<Rightarrow> engine" where
  "spec_dispatchDisplayCommand env command s =
     foldl (\<lambda>s' operation. operation s')
       (foldl (\<lambda>s' layerCmd. dispatchLayerCommand env (display command) layerCmd s') s (layers command))
       (displayOperations env command)"

text \<open>
  The batch executor in the words of the spec: the \<open>i\<close>-th command of the batch is
  dispatched under the command index \<open>i\<close>, whatever the commands before it did.
\<close>

definition spec_executeLoop :: "env \<Rightarrow> DisplayCommand list \<Rightarrow> engine \<Rightarrow> engine" where
  "spec_executeLoop env commands s =
     foldl (\<lambda>s' (i, command). dispatchDisplayCommand env command (s'\<lparr>mCommandIndex := i\<rparr>)) s
       (zip [0..<length commands] commands)"

text \<open>
  What a command leaves behind while the index stands still: the index is the same, and
  the error entries it has added all carry that index.
\<close>

definition advances :: "engine \<Rightarrow> engine \<Rightarrow> bool" where
  "advances s s' \<longleftrightarrow>
     mCommandIndex s' = mCommandIndex s \<and>
     (\<exists>k. errorIndices (mWriter s') = errorIndices (mWriter s) @ replicate k (mCommandIndex s))"

subsection \<open>Concrete inputs\<close>

text \<open>
  A reply that reports success and carries nothing, an environment that answers from a
  table of calls (and with that reply elsewhere), an engine before its first batch, and
  commands with no field populated.
\<close>

definition replyOk :: reply where
  "replyOk = \<lparr>status = 0, boolOut = False, bufferOut = nullptr, changedLayers = [],
     compositionTypes = [], displayRequestMask = 0, requestedLayers = [], requestMasks = [],
     presentFence = - 1, fenceLayers = [], fences = []\<rparr>"

definition failed :: "int \<Rightarrow> reply" where
  "failed e = replyOk\<lparr>status := e\<rparr>"

definition scripted :: "(call \<times> reply) list \<Rightarrow> env" where
  "scripted script h c = (case map_of script c of None \<Rightarrow> replyOk | Some r \<Rightarrow> r)"

definition idle :: engine where
  "idle = \<lparr>mCommandIndex = 0, mWriter = [], calls = []\<rparr>"

definition emptyLayerCommand :: "int \<Rightarrow> LayerCommand" where
  "emptyLayerCommand l = \<lparr>layer = l, cursorPosition = None, buffer = None, damage = None,
     blendMode = None, color = None, composition = None, dataspace = None, displayFrame = None,
     planeAlpha = None, sidebandStream = None, sourceCrop = None, transform = None,
     visibleRegion = None, z = None, colorTransform = None, whitePointNits = None,
     perFrameMetadata = None, perFrameMetadataBlob = None\<rparr>"

definition emptyDisplayCommand :: "int \<Rightarrow> DisplayCommand" where
  "emptyDisplayCommand d = \<lparr>display = d, layers = [], colorTransformMatrix = None,
     brightness = None, clientTarget = None, virtualDisplayOutputBuffer = None,
     expectedPresentTime = None, validateDisplay = False, acceptDisplayChanges = False,
     presentDisplay = False, presentOrValidateDisplay = False\<rparr>"

text \<open>
  A batch of three commands: the first sets the brightness and accepts changes, and both
  calls fail; the second validates; the third sets the brightness and fails.
\<close>

definition batch3 :: "DisplayCommand list" where
  "batch3 =
     [(emptyDisplayCommand 1)\<lparr>brightness := Some 7, acceptDisplayChanges := True\<rparr>,
      (emptyDisplayCommand 1)\<lparr>validateDisplay := True\<rparr>,
      (emptyDisplayCommand 2)\<lparr>brightness := Some 7\<rparr>]"

definition env3 :: env where
  "env3 = scripted [(SetDisplayBrightness 1 7, failed 4), (AcceptDisplayChanges 1, failed 3),
     (SetDisplayBrightness 2 7, failed 4)]"

text \<open>
  Environments for the present/validate protocol on display 1. In the first four the
  resource manager says that the display must be validated, and validation then finds
  nothing to change, or reports changes, or the display needs client composition, or
  validation fails. In the last two the display need not be validated and every hardware
  present fails.
\<close>

definition flagged :: reply where
  "flagged = replyOk\<lparr>boolOut := True\<rparr>"

definition envMustValidate :: env where
  "envMustValidate = scripted [(MustValidateDisplay 1, flagged)]"

definition envHasChanges :: env where
  "envHasChanges = scripted [(MustValidateDisplay 1, flagged), (ValidateDisplay 1, failed 5)]"

definition envClientComposition :: env where
  "envClientComposition = scripted [(MustValidateDisplay 1, flagged), (GetHasClientComposition 1, flagged)]"

definition envValidateFails :: env where
  "envValidateFails = scripted [(MustValidateDisplay 1, flagged), (ValidateDisplay 1, failed 2)]"

definition envPresentFails :: env where
  "envPresentFails = scripted [(PresentDisplay 1, failed 2)]"

definition envBrightnessAndPresentFail :: env where
  "envBrightnessAndPresentFail =
     scripted [(SetDisplayBrightness 1 7, failed 4), (PresentDisplay 1, failed 2)]"

text \<open>
  A command that sets the brightness and presents, and a command with every
  display-level field populated and two layers.
\<close>

definition commandPresent :: DisplayCommand where
  "commandPresent = (emptyDisplayCommand 1)\<lparr>brightness := Some 7, presentDisplay := True\<rparr>"

definition commandAll :: DisplayCommand where
  "commandAll = (emptyDisplayCommand 1)
     \<lparr>layers := [(emptyLayerCommand 10)\<lparr>z := Some 5\<rparr>, (emptyLayerCommand 11)\<lparr>blendMode := Some 1\<rparr>],
      colorTransformMatrix := Some [],
      brightness := Some 7,
      clientTarget := Some \<lparr>ct_buffer = \<lparr>slot = 0, handle = None, fence = - 1\<rparr>,
                             ct_dataspace = 0, ct_damage = []\<rparr>,
      virtualDisplayOutputBuffer := Some \<lparr>slot = 1, handle = None, fence = - 1\<rparr>,
      validateDisplay := True, acceptDisplayChanges := True, presentDisplay := True,
      presentOrValidateDisplay := True\<rparr>"

section \<open>Properties\<close>

subsection \<open>Evaluation on concrete inputs\<close>

lemmas engine_defs =
  emplace_def setError_def setChangedCompositionTypes_def setDisplayRequests_def
  setPresentFence_def setReleaseFences_def setPresentOrValidateResult_def
  getPendingCommandResults_def invoke_def halSetter_def resolveAndSet_def useCache_def
  rawHandle_def makeFromAidl_def executeSetColorTransform_def executeSetClientTarget_def
  executeSetOutputBuffer_def executeSetExpectedPresentTimeInternal_def
  executeValidateDisplayInternal_def executeValidateDisplay_def
  executeSetDisplayBrightness_def executeAcceptDisplayChanges_def executePresentDisplay_def
  executePresentOrValidateDisplay_def HWC2_ERROR_NONE_def HWC2_ERROR_HAS_CHANGES_def
  EX_NOT_VALIDATED_def

lemmas dispatch_defs =
  DISPATCH_LAYER_COMMAND_def DISPATCH_DISPLAY_COMMAND_def DISPATCH_DISPLAY_BOOL_COMMAND_def
  DISPATCH_DISPLAY_BOOL_COMMAND_AND_DATA_def dispatchLayerCommand_def dispatchDisplayCommand_def

lemmas input_defs =
  replyOk_def failed_def scripted_def idle_def emptyLayerCommand_def emptyDisplayCommand_def

lemmas layer_setter_defs =
  executeSetLayerCursorPosition_def executeSetLayerBuffer_def executeSetLayerSurfaceDamage_def
  executeSetLayerBlendMode_def executeSetLayerColor_def executeSetLayerComposition_def
  executeSetLayerDataspace_def executeSetLayerDisplayFrame_def executeSetLayerPlaneAlpha_def
  executeSetLayerSourceCrop_def executeSetLayerTransform_def executeSetLayerVisibleRegion_def
  executeSetLayerZOrder_def executeSetLayerPerFrameMetadata_def executeSetLayerColorTransform_def
  executeSetLayerPerFrameMetadataBlobs_def

lemmas env_defs = flagged_def envMustValidate_def envHasChanges_def envClientComposition_def
  envValidateFails_def envPresentFails_def

text \<open>What the primitive operations do, in closed form.\<close>

lemma executeSetExpectedPresentTimeInternal_run:
  "executeSetExpectedPresentTimeInternal env d t s = s\<lparr>calls := calls s @ [SetExpectedPresentTime d t]\<rparr>"
  by (simp add: executeSetExpectedPresentTimeInternal_def invoke_def)

lemma executePresentDisplay_run:
  "executePresentDisplay env d s =
     (let p = env (calls s) (PresentDisplay d)
      in (status p,
          s\<lparr>calls := calls s @ [PresentDisplay d],
            mWriter := mWriter s @
              (if status p = 0
               then (if presentFence p \<noteq> - 1 then [PresentFence d (presentFence p)] else []) @
                    [ReleaseFences d (fenceLayers p) (fences p)]
               else [])\<rparr>))"
  by (simp add: executePresentDisplay_def invoke_def Let_def setPresentFence_def
      setReleaseFences_def emplace_def)

lemma executeValidateDisplayInternal_run:
  "executeValidateDisplayInternal env d s =
     (let v = env (calls s) (ValidateDisplay d)
      in (status v,
          s\<lparr>calls := calls s @ [ValidateDisplay d, SetDisplayMustValidateState d False],
            mWriter := mWriter s @
              (if status v = HWC2_ERROR_NONE \<or> status v = HWC2_ERROR_HAS_CHANGES
               then [ChangedCompositionTypes d (changedLayers v) (compositionTypes v),
                     DisplayRequest d (displayRequestMask v) (requestedLayers v) (requestMasks v)]
               else [CommandError (mCommandIndex s) (status v)])\<rparr>))"
  by (simp add: executeValidateDisplayInternal_def invoke_def Let_def setDisplayRequests_def
      setChangedCompositionTypes_def setError_def emplace_def)

lemma halSetter_run:
  "halSetter env c s =
     s\<lparr>calls := calls s @ [c],
       mWriter := mWriter s @
         (if status (env (calls s) c) \<noteq> 0
          then [CommandError (mCommandIndex s) (status (env (calls s) c))] else [])\<rparr>"
  by (simp add: halSetter_def invoke_def setError_def emplace_def)

lemma execute_batch3:
  "execute env3 batch3 idle =
     (0,
      [CommandError 0 4, CommandError 0 3, ChangedCompositionTypes 1 [] [],
       DisplayRequest 1 0 [] [], CommandError 2 4],
      \<lparr>mCommandIndex = 3, mWriter = [],
        calls = [SetDisplayBrightness 1 7, AcceptDisplayChanges 1, SetExpectedPresentTime 1 None,
                 ValidateDisplay 1, SetDisplayMustValidateState 1 False,
                 SetDisplayBrightness 2 7]\<rparr>)"
  by (simp add: execute_def batch3_def env3_def Let_def engine_defs dispatch_defs input_defs)

subsection \<open>The command index and the error entries\<close>

lemma errorIndices_append: "errorIndices (xs @ ys) = errorIndices xs @ errorIndices ys"
  by (induction xs rule: errorIndices.induct) simp_all

lemma advances_refl: "advances s s"
  by (simp add: advances_def)

lemma advances_trans: "advances s s' \<Longrightarrow> advances s' s'' \<Longrightarrow> advances s s''"
  unfolding advances_def
  by (metis append.assoc replicate_add)

lemma advances_calls: "advances s s' \<Longrightarrow> advances s (s'\<lparr>calls := cs\<rparr>)"
  by (simp add: advances_def)

lemma advances_setError: "advances s s' \<Longrightarrow> i = mCommandIndex s \<Longrightarrow> advances s (setError i e s')"
  unfolding advances_def setError_def emplace_def
  apply (clarsimp simp: errorIndices_append)
  subgoal for k by (rule exI [of _ "Suc k"]) (simp add: replicate_append_same)
  done

lemma advances_emplace: "advances s s' \<Longrightarrow> errorIndices [p] = [] \<Longrightarrow> advances s (emplace p s')"
  unfolding advances_def emplace_def
  by (simp add: errorIndices_append)

lemma advances_halSetter: "advances s (halSetter env c s)"
  by (simp add: halSetter_def invoke_def advances_setError advances_calls advances_refl)

lemma advances_resolveAndSet: "advances s (resolveAndSet env g f s)"
  by (simp add: resolveAndSet_def invoke_def Let_def advances_setError advances_calls advances_refl)

lemma advances_sideband: "advances s (executeSetLayerSidebandStream env d l h s)"
  by (simp add: executeSetLayerSidebandStream_def invoke_def Let_def advances_setError advances_calls advances_refl)

lemma advances_setExpected: "advances s (executeSetExpectedPresentTimeInternal env d t s)"
  by (simp add: executeSetExpectedPresentTimeInternal_def invoke_def advances_calls advances_refl)

lemma advances_validateInternal: "advances s (snd (executeValidateDisplayInternal env d s))"
  by (simp add: executeValidateDisplayInternal_def invoke_def Let_def advances_setError advances_calls
      advances_refl setDisplayRequests_def setChangedCompositionTypes_def advances_emplace)

lemma advances_present: "advances s (snd (executePresentDisplay env d s))"
  by (simp add: executePresentDisplay_def invoke_def Let_def advances_calls
      advances_refl setPresentFence_def setReleaseFences_def advances_emplace)


lemma advances_setPoV: "advances s s' \<Longrightarrow> advances s (setPresentOrValidateResult d r s')"
  by (simp add: setPresentOrValidateResult_def advances_emplace)

lemma advances_accept: "advances s (executeAcceptDisplayChanges env d s)"
  by (simp add: executeAcceptDisplayChanges_def advances_halSetter)

lemma advances_validate: "advances s (executeValidateDisplay env d t s)"
  unfolding executeValidateDisplay_def
  by (rule advances_trans [OF advances_setExpected advances_validateInternal])

lemma advances_presentOrValidate: "advances s (executePresentOrValidateDisplay env d t s)"
proof -
  let ?s1 = "executeSetExpectedPresentTimeInternal env d t s"
  let ?s2 = "snd (invoke env (MustValidateDisplay d) ?s1)"
  let ?m = "fst (invoke env (MustValidateDisplay d) ?s1)"
  let ?p = "if boolOut ?m then (EX_NOT_VALIDATED, ?s2) else executePresentDisplay env d ?s2"
  let ?s3 = "snd ?p"
  let ?s4 = "snd (executeValidateDisplayInternal env d ?s3)"
  let ?s5 = "snd (invoke env (GetHasClientComposition d) ?s4)"
  let ?s6 = "executeAcceptDisplayChanges env d ?s5"
  let ?s7 = "snd (executePresentDisplay env d ?s6)"
  have a2: "advances s ?s2"
    by (rule advances_trans [OF advances_setExpected [of s env d t]])
      (simp add: invoke_def advances_calls advances_refl)
  have a3: "advances s ?s3"
    using a2 advances_trans [OF a2 advances_present] by simp
  have a4: "advances s ?s4"
    by (rule advances_trans [OF a3 advances_validateInternal])
  have a5: "advances s ?s5"
    using a4 by (simp add: invoke_def advances_calls)
  have a6: "advances s ?s6" "advances s (executeAcceptDisplayChanges env d ?s4)"
    by (rule advances_trans [OF a5 advances_accept], rule advances_trans [OF a4 advances_accept])
  have a7: "advances s ?s7"
    by (rule advances_trans [OF a6(1) advances_present])
  show ?thesis
    unfolding executePresentOrValidateDisplay_def Let_def
    using a3 a4 a5 a7
    by (auto simp: split_beta advances_setPoV split: if_splits)
qed

lemma advances_LAYER:
  "advances s s' \<Longrightarrow> (\<And>v u. advances u (f v u)) \<Longrightarrow> advances s (DISPATCH_LAYER_COMMAND field f s')"
  by (cases field) (auto simp: DISPATCH_LAYER_COMMAND_def intro: advances_trans)

lemma advances_DISPLAY:
  "advances s s' \<Longrightarrow> (\<And>v u. advances u (f v u)) \<Longrightarrow> advances s (DISPATCH_DISPLAY_COMMAND field f s')"
  by (cases field) (auto simp: DISPATCH_DISPLAY_COMMAND_def intro: advances_trans)

lemma advances_BOOL:
  "advances s s' \<Longrightarrow> (\<And>u. advances u (f u)) \<Longrightarrow> advances s (DISPATCH_DISPLAY_BOOL_COMMAND field f s')"
  by (auto simp: DISPATCH_DISPLAY_BOOL_COMMAND_def intro: advances_trans)

lemma advances_BOOL_DATA:
  "advances s s' \<Longrightarrow> (\<And>u. advances u (f u)) \<Longrightarrow>
   advances s (DISPATCH_DISPLAY_BOOL_COMMAND_AND_DATA field f s')"
  by (auto simp: DISPATCH_DISPLAY_BOOL_COMMAND_AND_DATA_def intro: advances_trans)

lemma advances_dispatchLayerCommand: "advances s (dispatchLayerCommand env d command s)"
  unfolding dispatchLayerCommand_def Let_def layer_setter_defs
  by (intro advances_LAYER advances_refl advances_halSetter advances_resolveAndSet advances_sideband)

lemma advances_dispatchLayerCommands: "advances s (dispatchLayerCommands env d lcs s)"
proof (induction lcs arbitrary: s)
  case Nil
  show ?case by (simp add: advances_refl)
next
  case (Cons lc lcs)
  show ?case
    using advances_trans [OF advances_dispatchLayerCommand Cons.IH] by simp
qed

lemma advances_dispatchDisplayCommand: "advances s (dispatchDisplayCommand env command s)"
  unfolding dispatchDisplayCommand_def Let_def executeSetColorTransform_def
    executeSetClientTarget_def executeSetOutputBuffer_def executeSetDisplayBrightness_def
  by (intro advances_DISPLAY advances_BOOL advances_BOOL_DATA advances_dispatchLayerCommands
      advances_halSetter advances_resolveAndSet advances_validate advances_accept
      advances_present advances_presentOrValidate)

lemma executeLoop_index: "mCommandIndex (executeLoop env cs s) = mCommandIndex s + length cs"
proof (induction cs arbitrary: s)
  case Nil
  show ?case by simp
next
  case (Cons c cs)
  have "mCommandIndex (dispatchDisplayCommand env c s) = mCommandIndex s"
    using advances_dispatchDisplayCommand [of s env c] by (simp add: advances_def)
  then show ?case by (simp add: Cons.IH Let_def)
qed

lemma executeLoop_errors:
  "\<exists>xs. errorIndices (mWriter (executeLoop env cs s)) = errorIndices (mWriter s) @ xs \<and>
        sorted xs \<and> set xs \<subseteq> {mCommandIndex s ..< mCommandIndex s + length cs}"
proof (induction cs arbitrary: s)
  case Nil
  show ?case by simp
next
  case (Cons c cs)
  let ?s1 = "dispatchDisplayCommand env c s"
  let ?s2 = "?s1\<lparr>mCommandIndex := mCommandIndex ?s1 + 1\<rparr>"
  from advances_dispatchDisplayCommand [of s env c]
  obtain k where idx: "mCommandIndex ?s1 = mCommandIndex s"
    and k: "errorIndices (mWriter ?s1) = errorIndices (mWriter s) @ replicate k (mCommandIndex s)"
    by (auto simp: advances_def)
  from Cons.IH [of ?s2]
  obtain xs where xs: "errorIndices (mWriter (executeLoop env cs ?s2)) = errorIndices (mWriter ?s2) @ xs"
    and sorted: "sorted xs"
    and range: "set xs \<subseteq> {mCommandIndex ?s2 ..< mCommandIndex ?s2 + length cs}"
    by blast
  let ?ys = "replicate k (mCommandIndex s) @ xs"
  have "errorIndices (mWriter (executeLoop env (c # cs) s)) = errorIndices (mWriter s) @ ?ys"
    using xs k by (simp add: Let_def)
  moreover have "sorted ?ys"
    using sorted range idx by (auto simp: sorted_append)
  moreover have "set ?ys \<subseteq> {mCommandIndex s ..< mCommandIndex s + length (c # cs)}"
    using range idx by auto
  ultimately show ?case by blast
qed

lemma foldl_index_irrelevant:
  "(foldl (\<lambda>s' (i, command). dispatchDisplayCommand env command (s'\<lparr>mCommandIndex := i\<rparr>))
      (s\<lparr>mCommandIndex := k\<rparr>) zs)\<lparr>mCommandIndex := m\<rparr> =
   (foldl (\<lambda>s' (i, command). dispatchDisplayCommand env command (s'\<lparr>mCommandIndex := i\<rparr>))
      s zs)\<lparr>mCommandIndex := m\<rparr>"
  by (cases zs) auto

lemma executeLoop_fold:
  "mCommandIndex s = n \<Longrightarrow>
   executeLoop env cs s =
     (foldl (\<lambda>s' (i, command). dispatchDisplayCommand env command (s'\<lparr>mCommandIndex := i\<rparr>)) s
        (zip [n..<n + length cs] cs))\<lparr>mCommandIndex := n + length cs\<rparr>"
proof (induction cs arbitrary: s n)
  case Nil
  then show ?case by simp
next
  case (Cons c cs)
  let ?s1 = "dispatchDisplayCommand env c s"
  have idx: "mCommandIndex ?s1 = n"
    using advances_dispatchDisplayCommand [of s env c] Cons.prems by (simp add: advances_def)
  have same: "s\<lparr>mCommandIndex := n\<rparr> = s"
    using Cons.prems by simp
  have up: "[n..<Suc (n + length cs)] = n # [Suc n..<Suc (n + length cs)]"
    by (subst upt_rec) simp
  show ?case
    using Cons.IH [of "?s1\<lparr>mCommandIndex := Suc n\<rparr>" "Suc n"] idx
    by (simp add: Let_def up same foldl_index_irrelevant del: upt_Suc)
qed

lemma strict_sorted_subseq_upt:
  assumes "sorted_wrt (<) xs" and "set xs \<subseteq> {0..<n}"
  shows "subseq xs [0..<n]"
proof -
  have "filter (\<lambda>x. x \<in> set xs) [0..<n] = xs"
  proof (rule sorted_distinct_set_unique)
    show "sorted (filter (\<lambda>x. x \<in> set xs) [0..<n])" by (simp add: sorted_wrt_filter)
    show "distinct (filter (\<lambda>x. x \<in> set xs) [0..<n])" by simp
    show "sorted xs" "distinct xs" using assms(1) by (simp_all add: strict_sorted_iff)
    show "set (filter (\<lambda>x. x \<in> set xs) [0..<n]) = set xs" using assms(2) by auto
  qed
  then show ?thesis by (metis subseq_filter_left)
qed


text \<open>
  C1: \<^verbatim>\<open>execute\<close> starts every batch at command index 0 and dispatches every command of
  the batch in order, the \<open>i\<close>-th under the index \<open>i\<close>, whatever the earlier commands
  recorded: its results and its calls are those of the spec's executor, and the index ends
  at the size of the batch. The indices of the recorded errors never decrease, so no
  index comes back once a later one has appeared; they lie in \<open>[0, n)\<close> for a batch of
  \<open>n\<close> commands; and the indices that appear, each taken once, are a strictly increasing
  subsequence of \<open>[0, n)\<close>. One command can record several errors, all under its own
  index (\<open>execute_batch3\<close> has two under index 0). Only error entries carry a command
  index. The writer is empty when \<^verbatim>\<open>execute\<close> starts: \<^verbatim>\<open>init\<close> makes it so, and each
  \<^verbatim>\<open>execute\<close> drains it.
\<close>

theorem execute_command_indices:
  assumes "mWriter s = []"
  shows "(case execute env commands s of (ret, result, s') \<Rightarrow>
           result = mWriter (spec_executeLoop env commands s) \<and>
           calls s' = calls (spec_executeLoop env commands s) \<and>
           mCommandIndex s' = length commands \<and>
           mWriter s' = [] \<and>
           sorted (errorIndices result) \<and>
           set (errorIndices result) \<subseteq> {0..<length commands} \<and>
           sorted_wrt (<) (remdups (errorIndices result)) \<and>
           subseq (remdups (errorIndices result)) [0..<length commands])"
proof -
  let ?s0 = "s\<lparr>mCommandIndex := 0\<rparr>"
  let ?s1 = "executeLoop env commands ?s0"
  have fold: "?s1 = (spec_executeLoop env commands s)\<lparr>mCommandIndex := length commands\<rparr>"
    using executeLoop_fold [where s = ?s0 and n = 0 and env = env and cs = commands]
      foldl_index_irrelevant [where env = env and s = s and k = 0]
    by (simp add: spec_executeLoop_def)
  obtain xs where xs: "errorIndices (mWriter ?s1) = xs" and sorted: "sorted xs"
    and range: "set xs \<subseteq> {0..<length commands}"
    using executeLoop_errors [of env commands ?s0] assms by auto
  have strict: "sorted_wrt (<) (remdups xs)"
    using sorted by (simp add: strict_sorted_iff)
  have "subseq (remdups xs) [0..<length commands]"
    using strict range by (intro strict_sorted_subseq_upt) simp_all
  with strict sorted range xs fold show ?thesis
    by (simp add: execute_def getPendingCommandResults_def Let_def)
qed

theorem execute_command_indices_witness:
  "mWriter idle = [] \<and>
   mWriter (spec_executeLoop env3 batch3 idle) = fst (snd (execute env3 batch3 idle)) \<and>
   mCommandIndex (snd (snd (execute env3 batch3 idle))) = 3 \<and>
   errorIndices (fst (snd (execute env3 batch3 idle))) = [0, 0, 2] \<and>
   sorted [0, 0, 2 :: nat] \<and>
   sorted_wrt (<) (remdups [0, 0, 2 :: nat]) \<and>
   subseq (remdups [0, 0, 2 :: nat]) [0..<3]"
proof -
  have empty: "mWriter idle = []"
    by (simp add: idle_def)
  have len: "length batch3 = 3"
    by (simp add: batch3_def)
  have indices: "errorIndices (fst (snd (execute env3 batch3 idle))) = [0, 0, 2]"
    by (simp add: execute_batch3)
  show ?thesis
    using execute_command_indices [OF empty, of env3 batch3] empty indices
    by (simp add: split_beta len)
qed

lemma init_empty: "mWriter (snd (init s)) = []"
  by (simp add: init_def)

lemma execute_drains: "mWriter (snd (snd (execute env commands s))) = []"
  by (simp add: execute_def getPendingCommandResults_def Let_def)

subsection \<open>The present-or-validate protocol\<close>

text \<open>
  C2: when the resource manager answers that the display need not be validated and the
  hardware present succeeds, present-or-validate publishes the outcome \<open>Presented\<close>
  (after the fences of the present), and its calls are the expected present time, the
  must-validate query and one present: no validate and no accept-changes call.
\<close>

theorem presentOrValidate_presents_directly:
  fixes env :: env and s :: engine and d :: int and t :: "int option"
  defines "h1 \<equiv> calls s @ [SetExpectedPresentTime d t]"
  defines "h2 \<equiv> h1 @ [MustValidateDisplay d]"
  defines "p \<equiv> env h2 (PresentDisplay d)"
  defines "s' \<equiv> executePresentOrValidateDisplay env d t s"
  assumes mustValidate: "\<not> boolOut (env h1 (MustValidateDisplay d))"
      and present: "status p = HWC2_ERROR_NONE"
  shows "filter isProtocolOutcome (newResults s s') = [PresentOrValidate d Presented] \<and>
         newResults s s' =
           (if presentFence p \<noteq> - 1 then [PresentFence d (presentFence p)] else []) @
           [ReleaseFences d (fenceLayers p) (fences p), PresentOrValidate d Presented] \<and>
         newCalls s s' = [SetExpectedPresentTime d t, MustValidateDisplay d, PresentDisplay d] \<and>
         filter isValidateCall (newCalls s s') = [] \<and>
         filter isAcceptCall (newCalls s s') = [] \<and>
         mCommandIndex s' = mCommandIndex s"
  using mustValidate present
  unfolding h1_def h2_def p_def s'_def
  by (simp add: engine_defs newCalls_def newResults_def Let_def)

theorem presentOrValidate_presents_directly_witness:
  "\<not> boolOut (scripted [] (calls idle @ [SetExpectedPresentTime 1 None]) (MustValidateDisplay 1)) \<and>
   status (scripted [] ((calls idle @ [SetExpectedPresentTime 1 None]) @ [MustValidateDisplay 1])
     (PresentDisplay 1)) = HWC2_ERROR_NONE \<and>
   newResults idle (executePresentOrValidateDisplay (scripted []) 1 None idle) =
     [ReleaseFences 1 [] [], PresentOrValidate 1 Presented] \<and>
   newCalls idle (executePresentOrValidateDisplay (scripted []) 1 None idle) =
     [SetExpectedPresentTime 1 None, MustValidateDisplay 1, PresentDisplay 1]"
proof -
  have a: "\<not> boolOut (scripted [] (calls idle @ [SetExpectedPresentTime 1 None]) (MustValidateDisplay 1))"
    by (simp add: input_defs)
  have b: "status (scripted [] ((calls idle @ [SetExpectedPresentTime 1 None]) @ [MustValidateDisplay 1])
     (PresentDisplay 1)) = HWC2_ERROR_NONE"
    by (simp add: input_defs HWC2_ERROR_NONE_def)
  show ?thesis
    using a b presentOrValidate_presents_directly
        [where env = "scripted []" and s = idle and d = 1 and t = None, OF a b]
    by (simp add: scripted_def replyOk_def)
qed

text \<open>
  The fallback of present-or-validate, which runs when the display must be validated or
  the first present failed, and its four ways out.
\<close>

lemma presentOrValidate_fallback:
  fixes env :: env and s :: engine and d :: int and t :: "int option"
  defines "h1 \<equiv> calls s @ [SetExpectedPresentTime d t]"
  defines "m \<equiv> env h1 (MustValidateDisplay d)"
  defines "h2 \<equiv> h1 @ [MustValidateDisplay d]"
  defines "h3 \<equiv> h2 @ (if boolOut m then [] else [PresentDisplay d])"
  assumes fallback: "boolOut m \<or> status (env h2 (PresentDisplay d)) \<noteq> 0"
  shows "executePresentOrValidateDisplay env d t s =
     (let (validateErr, s4) = executeValidateDisplayInternal env d (s\<lparr>calls := h3\<rparr>)
      in if validateErr \<noteq> HWC2_ERROR_NONE \<and> validateErr \<noteq> HWC2_ERROR_HAS_CHANGES then s4
         else
          (let (cannotPresentDirectly, s5) =
                 (if validateErr = HWC2_ERROR_HAS_CHANGES then (True, s4)
                  else (let (q, s') = invoke env (GetHasClientComposition d) s4
                        in (status q = HWC2_ERROR_NONE \<and> boolOut q, s')))
           in if cannotPresentDirectly then setPresentOrValidateResult d Validated s5
              else
               (let s6 = executeAcceptDisplayChanges env d s5;
                    (presentErr', s7) = executePresentDisplay env d s6
                in if presentErr' = 0 then setPresentOrValidateResult d Presented s7
                   else s7)))"
proof (cases "boolOut m")
  case True
  then show ?thesis
    unfolding executePresentOrValidateDisplay_def executeSetExpectedPresentTimeInternal_run
      h3_def h2_def h1_def m_def
    by (simp add: invoke_def EX_NOT_VALIDATED_def)
next
  case False
  with fallback have "status (env h2 (PresentDisplay d)) \<noteq> 0" by simp
  with False show ?thesis
    unfolding executePresentOrValidateDisplay_def executeSetExpectedPresentTimeInternal_run
      h3_def h2_def h1_def m_def
    by (simp add: invoke_def executePresentDisplay_run Let_def)
qed

lemma presentOrValidate_hard_error:
  fixes env :: env and s :: engine and d :: int and t :: "int option"
  defines "h1 \<equiv> calls s @ [SetExpectedPresentTime d t]"
  defines "m \<equiv> env h1 (MustValidateDisplay d)"
  defines "h2 \<equiv> h1 @ [MustValidateDisplay d]"
  defines "h3 \<equiv> h2 @ (if boolOut m then [] else [PresentDisplay d])"
  defines "v \<equiv> env h3 (ValidateDisplay d)"
  defines "h4 \<equiv> h3 @ [ValidateDisplay d, SetDisplayMustValidateState d False]"
  defines "q \<equiv> env h4 (GetHasClientComposition d)"
  defines "a \<equiv> env (h4 @ [GetHasClientComposition d]) (AcceptDisplayChanges d)"
  defines "p2 \<equiv> env (h4 @ [GetHasClientComposition d, AcceptDisplayChanges d]) (PresentDisplay d)"
  defines "published \<equiv>
    [ChangedCompositionTypes d (changedLayers v) (compositionTypes v),
     DisplayRequest d (displayRequestMask v) (requestedLayers v) (requestMasks v)]"
  assumes fallback: "boolOut m \<or> status (env h2 (PresentDisplay d)) \<noteq> 0"
      and "status v \<noteq> HWC2_ERROR_NONE" and "status v \<noteq> HWC2_ERROR_HAS_CHANGES"
  shows "executePresentOrValidateDisplay env d t s = s\<lparr>calls := h4, mWriter := mWriter s @ [CommandError (mCommandIndex s) (status v)]\<rparr>"
proof -
  note fb = presentOrValidate_fallback [OF fallback [unfolded m_def h2_def h1_def]]
  show ?thesis
    using assms
  unfolding h1_def h2_def h3_def h4_def m_def v_def q_def a_def p2_def published_def
    by (subst fb) (simp add: executeValidateDisplayInternal_run halSetter_run executePresentDisplay_run
        executeAcceptDisplayChanges_def invoke_def setPresentOrValidateResult_def emplace_def
        Let_def HWC2_ERROR_NONE_def HWC2_ERROR_HAS_CHANGES_def)
qed

lemma presentOrValidate_has_changes:
  fixes env :: env and s :: engine and d :: int and t :: "int option"
  defines "h1 \<equiv> calls s @ [SetExpectedPresentTime d t]"
  defines "m \<equiv> env h1 (MustValidateDisplay d)"
  defines "h2 \<equiv> h1 @ [MustValidateDisplay d]"
  defines "h3 \<equiv> h2 @ (if boolOut m then [] else [PresentDisplay d])"
  defines "v \<equiv> env h3 (ValidateDisplay d)"
  defines "h4 \<equiv> h3 @ [ValidateDisplay d, SetDisplayMustValidateState d False]"
  defines "q \<equiv> env h4 (GetHasClientComposition d)"
  defines "a \<equiv> env (h4 @ [GetHasClientComposition d]) (AcceptDisplayChanges d)"
  defines "p2 \<equiv> env (h4 @ [GetHasClientComposition d, AcceptDisplayChanges d]) (PresentDisplay d)"
  defines "published \<equiv>
    [ChangedCompositionTypes d (changedLayers v) (compositionTypes v),
     DisplayRequest d (displayRequestMask v) (requestedLayers v) (requestMasks v)]"
  assumes fallback: "boolOut m \<or> status (env h2 (PresentDisplay d)) \<noteq> 0"
      and "status v = HWC2_ERROR_HAS_CHANGES"
  shows "executePresentOrValidateDisplay env d t s = s\<lparr>calls := h4, mWriter := mWriter s @ published @ [PresentOrValidate d Validated]\<rparr>"
proof -
  note fb = presentOrValidate_fallback [OF fallback [unfolded m_def h2_def h1_def]]
  show ?thesis
    using assms
  unfolding h1_def h2_def h3_def h4_def m_def v_def q_def a_def p2_def published_def
    by (subst fb) (simp add: executeValidateDisplayInternal_run halSetter_run executePresentDisplay_run
        executeAcceptDisplayChanges_def invoke_def setPresentOrValidateResult_def emplace_def
        Let_def HWC2_ERROR_NONE_def HWC2_ERROR_HAS_CHANGES_def)
qed

lemma presentOrValidate_client_composition:
  fixes env :: env and s :: engine and d :: int and t :: "int option"
  defines "h1 \<equiv> calls s @ [SetExpectedPresentTime d t]"
  defines "m \<equiv> env h1 (MustValidateDisplay d)"
  defines "h2 \<equiv> h1 @ [MustValidateDisplay d]"
  defines "h3 \<equiv> h2 @ (if boolOut m then [] else [PresentDisplay d])"
  defines "v \<equiv> env h3 (ValidateDisplay d)"
  defines "h4 \<equiv> h3 @ [ValidateDisplay d, SetDisplayMustValidateState d False]"
  defines "q \<equiv> env h4 (GetHasClientComposition d)"
  defines "a \<equiv> env (h4 @ [GetHasClientComposition d]) (AcceptDisplayChanges d)"
  defines "p2 \<equiv> env (h4 @ [GetHasClientComposition d, AcceptDisplayChanges d]) (PresentDisplay d)"
  defines "published \<equiv>
    [ChangedCompositionTypes d (changedLayers v) (compositionTypes v),
     DisplayRequest d (displayRequestMask v) (requestedLayers v) (requestMasks v)]"
  assumes fallback: "boolOut m \<or> status (env h2 (PresentDisplay d)) \<noteq> 0"
      and "status v = HWC2_ERROR_NONE" and "status q = HWC2_ERROR_NONE" and "boolOut q"
  shows "executePresentOrValidateDisplay env d t s = s\<lparr>calls := h4 @ [GetHasClientComposition d],
              mWriter := mWriter s @ published @ [PresentOrValidate d Validated]\<rparr>"
proof -
  note fb = presentOrValidate_fallback [OF fallback [unfolded m_def h2_def h1_def]]
  show ?thesis
    using assms
  unfolding h1_def h2_def h3_def h4_def m_def v_def q_def a_def p2_def published_def
    by (subst fb) (simp add: executeValidateDisplayInternal_run halSetter_run executePresentDisplay_run
        executeAcceptDisplayChanges_def invoke_def setPresentOrValidateResult_def emplace_def
        Let_def HWC2_ERROR_NONE_def HWC2_ERROR_HAS_CHANGES_def)
qed

lemma presentOrValidate_second_present:
  fixes env :: env and s :: engine and d :: int and t :: "int option"
  defines "h1 \<equiv> calls s @ [SetExpectedPresentTime d t]"
  defines "m \<equiv> env h1 (MustValidateDisplay d)"
  defines "h2 \<equiv> h1 @ [MustValidateDisplay d]"
  defines "h3 \<equiv> h2 @ (if boolOut m then [] else [PresentDisplay d])"
  defines "v \<equiv> env h3 (ValidateDisplay d)"
  defines "h4 \<equiv> h3 @ [ValidateDisplay d, SetDisplayMustValidateState d False]"
  defines "q \<equiv> env h4 (GetHasClientComposition d)"
  defines "a \<equiv> env (h4 @ [GetHasClientComposition d]) (AcceptDisplayChanges d)"
  defines "p2 \<equiv> env (h4 @ [GetHasClientComposition d, AcceptDisplayChanges d]) (PresentDisplay d)"
  defines "published \<equiv>
    [ChangedCompositionTypes d (changedLayers v) (compositionTypes v),
     DisplayRequest d (displayRequestMask v) (requestedLayers v) (requestMasks v)]"
  assumes fallback: "boolOut m \<or> status (env h2 (PresentDisplay d)) \<noteq> 0"
      and "status v = HWC2_ERROR_NONE" and "\<not> (status q = HWC2_ERROR_NONE \<and> boolOut q)"
  shows "executePresentOrValidateDisplay env d t s = s\<lparr>calls := h4 @ [GetHasClientComposition d, AcceptDisplayChanges d, PresentDisplay d],
              mWriter := mWriter s @ published @
                (if status a \<noteq> 0 then [CommandError (mCommandIndex s) (status a)] else []) @
                (if status p2 = 0
                 then (if presentFence p2 \<noteq> - 1 then [PresentFence d (presentFence p2)] else []) @
                      [ReleaseFences d (fenceLayers p2) (fences p2), PresentOrValidate d Presented]
                 else [])\<rparr>"
proof -
  note fb = presentOrValidate_fallback [OF fallback [unfolded m_def h2_def h1_def]]
  show ?thesis
    using assms
  unfolding h1_def h2_def h3_def h4_def m_def v_def q_def a_def p2_def published_def
    by (subst fb) (simp add: executeValidateDisplayInternal_run halSetter_run executePresentDisplay_run
        executeAcceptDisplayChanges_def invoke_def setPresentOrValidateResult_def emplace_def
        Let_def HWC2_ERROR_NONE_def HWC2_ERROR_HAS_CHANGES_def)
qed

text \<open>
  C3: on a display that must be validated, when validate returns "no changes" and the
  client-composition query does not answer true (it answers false, or fails), the engine
  calls accept-changes once and then present once, and when that present succeeds the
  outcome is \<open>Presented\<close>. When validate returns "has changes", or returns "no changes"
  and the query answers true, the outcome is \<open>Validated\<close> and neither accept-changes
  nor present is called.
\<close>

theorem presentOrValidate_after_validate:
  fixes env :: env and s :: engine and d :: int and t :: "int option"
  defines "h1 \<equiv> calls s @ [SetExpectedPresentTime d t]"
  defines "h2 \<equiv> h1 @ [MustValidateDisplay d]"
  defines "v \<equiv> env h2 (ValidateDisplay d)"
  defines "h4 \<equiv> h2 @ [ValidateDisplay d, SetDisplayMustValidateState d False]"
  defines "q \<equiv> env h4 (GetHasClientComposition d)"
  defines "a \<equiv> env (h4 @ [GetHasClientComposition d]) (AcceptDisplayChanges d)"
  defines "p \<equiv> env (h4 @ [GetHasClientComposition d, AcceptDisplayChanges d]) (PresentDisplay d)"
  defines "s' \<equiv> executePresentOrValidateDisplay env d t s"
  defines "published \<equiv>
    [ChangedCompositionTypes d (changedLayers v) (compositionTypes v),
     DisplayRequest d (displayRequestMask v) (requestedLayers v) (requestMasks v)]"
  assumes mustValidate: "boolOut (env h1 (MustValidateDisplay d))"
  shows "(status v = HWC2_ERROR_NONE \<and> \<not> (status q = HWC2_ERROR_NONE \<and> boolOut q) \<longrightarrow>
            filter (\<lambda>c. isAcceptCall c \<or> isPresentCall c) (newCalls s s') =
              [AcceptDisplayChanges d, PresentDisplay d] \<and>
            newCalls s s' =
              [SetExpectedPresentTime d t, MustValidateDisplay d, ValidateDisplay d,
               SetDisplayMustValidateState d False, GetHasClientComposition d,
               AcceptDisplayChanges d, PresentDisplay d] \<and>
            (status p = HWC2_ERROR_NONE \<longrightarrow>
               filter isProtocolOutcome (newResults s s') = [PresentOrValidate d Presented] \<and>
               newResults s s' =
                 published @
                 (if status a \<noteq> 0 then [CommandError (mCommandIndex s) (status a)] else []) @
                 (if presentFence p \<noteq> - 1 then [PresentFence d (presentFence p)] else []) @
                 [ReleaseFences d (fenceLayers p) (fences p), PresentOrValidate d Presented])) \<and>
         (status v = HWC2_ERROR_HAS_CHANGES \<or>
          status v = HWC2_ERROR_NONE \<and> status q = HWC2_ERROR_NONE \<and> boolOut q \<longrightarrow>
            filter isProtocolOutcome (newResults s s') = [PresentOrValidate d Validated] \<and>
            newResults s s' = published @ [PresentOrValidate d Validated] \<and>
            filter (\<lambda>c. isAcceptCall c \<or> isPresentCall c) (newCalls s s') = [] \<and>
            newCalls s s' =
              [SetExpectedPresentTime d t, MustValidateDisplay d, ValidateDisplay d,
               SetDisplayMustValidateState d False] @
              (if status v = HWC2_ERROR_HAS_CHANGES then [] else [GetHasClientComposition d]))"
proof -
  have fb: "boolOut (env (calls s @ [SetExpectedPresentTime d t]) (MustValidateDisplay d)) \<or>
      status (env ((calls s @ [SetExpectedPresentTime d t]) @ [MustValidateDisplay d]) (PresentDisplay d)) \<noteq> 0"
    using mustValidate by (simp add: h1_def)
  have mv: "boolOut (env (calls s @ [SetExpectedPresentTime d t]) (MustValidateDisplay d))"
    using mustValidate by (simp add: h1_def)
  have again: "filter (\<lambda>c. isAcceptCall c \<or> isPresentCall c) (newCalls s s') =
        [AcceptDisplayChanges d, PresentDisplay d] \<and>
      newCalls s s' =
        [SetExpectedPresentTime d t, MustValidateDisplay d, ValidateDisplay d,
         SetDisplayMustValidateState d False, GetHasClientComposition d,
         AcceptDisplayChanges d, PresentDisplay d] \<and>
      (status p = HWC2_ERROR_NONE \<longrightarrow>
         filter isProtocolOutcome (newResults s s') = [PresentOrValidate d Presented] \<and>
         newResults s s' =
           published @
           (if status a \<noteq> 0 then [CommandError (mCommandIndex s) (status a)] else []) @
           (if presentFence p \<noteq> - 1 then [PresentFence d (presentFence p)] else []) @
           [ReleaseFences d (fenceLayers p) (fences p), PresentOrValidate d Presented])"
    if "status v = HWC2_ERROR_NONE" and "\<not> (status q = HWC2_ERROR_NONE \<and> boolOut q)"
    using presentOrValidate_second_present [OF fb] that mv
    unfolding s'_def v_def q_def a_def p_def h4_def h2_def h1_def published_def
    by (simp add: newCalls_def newResults_def HWC2_ERROR_NONE_def)
  have changes: "filter isProtocolOutcome (newResults s s') = [PresentOrValidate d Validated] \<and>
      newResults s s' = published @ [PresentOrValidate d Validated] \<and>
      filter (\<lambda>c. isAcceptCall c \<or> isPresentCall c) (newCalls s s') = [] \<and>
      newCalls s s' =
        [SetExpectedPresentTime d t, MustValidateDisplay d, ValidateDisplay d,
         SetDisplayMustValidateState d False] @
        (if status v = HWC2_ERROR_HAS_CHANGES then [] else [GetHasClientComposition d])"
    if "status v = HWC2_ERROR_HAS_CHANGES"
    using presentOrValidate_has_changes [OF fb] that mv
    unfolding s'_def v_def q_def a_def p_def h4_def h2_def h1_def published_def
    by (simp add: newCalls_def newResults_def)
  have client: "filter isProtocolOutcome (newResults s s') = [PresentOrValidate d Validated] \<and>
      newResults s s' = published @ [PresentOrValidate d Validated] \<and>
      filter (\<lambda>c. isAcceptCall c \<or> isPresentCall c) (newCalls s s') = [] \<and>
      newCalls s s' =
        [SetExpectedPresentTime d t, MustValidateDisplay d, ValidateDisplay d,
         SetDisplayMustValidateState d False] @
        (if status v = HWC2_ERROR_HAS_CHANGES then [] else [GetHasClientComposition d])"
    if "status v = HWC2_ERROR_NONE" and "status q = HWC2_ERROR_NONE" and "boolOut q"
    using presentOrValidate_client_composition [OF fb] that mv
    unfolding s'_def v_def q_def a_def p_def h4_def h2_def h1_def published_def
    by (simp add: newCalls_def newResults_def HWC2_ERROR_NONE_def HWC2_ERROR_HAS_CHANGES_def)
  from again changes client show ?thesis
    by blast
qed

theorem presentOrValidate_after_validate_witness:
  "boolOut (envMustValidate (calls idle @ [SetExpectedPresentTime 1 None]) (MustValidateDisplay 1)) \<and>
   newCalls idle (executePresentOrValidateDisplay envMustValidate 1 None idle) =
     [SetExpectedPresentTime 1 None, MustValidateDisplay 1, ValidateDisplay 1,
      SetDisplayMustValidateState 1 False, GetHasClientComposition 1, AcceptDisplayChanges 1,
      PresentDisplay 1] \<and>
   newResults idle (executePresentOrValidateDisplay envMustValidate 1 None idle) =
     [ChangedCompositionTypes 1 [] [], DisplayRequest 1 0 [] [], ReleaseFences 1 [] [],
      PresentOrValidate 1 Presented] \<and>
   boolOut (envHasChanges (calls idle @ [SetExpectedPresentTime 1 None]) (MustValidateDisplay 1)) \<and>
   newCalls idle (executePresentOrValidateDisplay envHasChanges 1 None idle) =
     [SetExpectedPresentTime 1 None, MustValidateDisplay 1, ValidateDisplay 1,
      SetDisplayMustValidateState 1 False] \<and>
   newResults idle (executePresentOrValidateDisplay envHasChanges 1 None idle) =
     [ChangedCompositionTypes 1 [] [], DisplayRequest 1 0 [] [], PresentOrValidate 1 Validated] \<and>
   boolOut (envClientComposition (calls idle @ [SetExpectedPresentTime 1 None]) (MustValidateDisplay 1)) \<and>
   newCalls idle (executePresentOrValidateDisplay envClientComposition 1 None idle) =
     [SetExpectedPresentTime 1 None, MustValidateDisplay 1, ValidateDisplay 1,
      SetDisplayMustValidateState 1 False, GetHasClientComposition 1] \<and>
   newResults idle (executePresentOrValidateDisplay envClientComposition 1 None idle) =
     [ChangedCompositionTypes 1 [] [], DisplayRequest 1 0 [] [], PresentOrValidate 1 Validated]"
proof -
  have a: "boolOut (envMustValidate (calls idle @ [SetExpectedPresentTime 1 None]) (MustValidateDisplay 1))"
    by (simp add: input_defs env_defs)
  have b: "boolOut (envHasChanges (calls idle @ [SetExpectedPresentTime 1 None]) (MustValidateDisplay 1))"
    by (simp add: input_defs env_defs)
  have c: "boolOut (envClientComposition (calls idle @ [SetExpectedPresentTime 1 None]) (MustValidateDisplay 1))"
    by (simp add: input_defs env_defs)
  have "newCalls idle (executePresentOrValidateDisplay envMustValidate 1 None idle) =
     [SetExpectedPresentTime 1 None, MustValidateDisplay 1, ValidateDisplay 1,
      SetDisplayMustValidateState 1 False, GetHasClientComposition 1, AcceptDisplayChanges 1,
      PresentDisplay 1] \<and>
    newResults idle (executePresentOrValidateDisplay envMustValidate 1 None idle) =
     [ChangedCompositionTypes 1 [] [], DisplayRequest 1 0 [] [], ReleaseFences 1 [] [],
      PresentOrValidate 1 Presented]"
    using presentOrValidate_after_validate
        [where env = envMustValidate and s = idle and d = 1 and t = None, OF a]
    by (simp add: envMustValidate_def scripted_def replyOk_def failed_def flagged_def idle_def
        HWC2_ERROR_NONE_def HWC2_ERROR_HAS_CHANGES_def)
  moreover have "newCalls idle (executePresentOrValidateDisplay envHasChanges 1 None idle) =
     [SetExpectedPresentTime 1 None, MustValidateDisplay 1, ValidateDisplay 1,
      SetDisplayMustValidateState 1 False] \<and>
    newResults idle (executePresentOrValidateDisplay envHasChanges 1 None idle) =
     [ChangedCompositionTypes 1 [] [], DisplayRequest 1 0 [] [], PresentOrValidate 1 Validated]"
    using presentOrValidate_after_validate
        [where env = envHasChanges and s = idle and d = 1 and t = None, OF b]
    by (simp add: envHasChanges_def scripted_def replyOk_def failed_def flagged_def idle_def
        HWC2_ERROR_NONE_def HWC2_ERROR_HAS_CHANGES_def)
  moreover have "newCalls idle (executePresentOrValidateDisplay envClientComposition 1 None idle) =
     [SetExpectedPresentTime 1 None, MustValidateDisplay 1, ValidateDisplay 1,
      SetDisplayMustValidateState 1 False, GetHasClientComposition 1] \<and>
    newResults idle (executePresentOrValidateDisplay envClientComposition 1 None idle) =
     [ChangedCompositionTypes 1 [] [], DisplayRequest 1 0 [] [], PresentOrValidate 1 Validated]"
    using presentOrValidate_after_validate
        [where env = envClientComposition and s = idle and d = 1 and t = None, OF c]
    by (simp add: envClientComposition_def scripted_def replyOk_def failed_def flagged_def idle_def
        HWC2_ERROR_NONE_def HWC2_ERROR_HAS_CHANGES_def)
  ultimately show ?thesis
    using a b c by simp
qed

text \<open>
  C6: in the fallback of present-or-validate (the display must be validated, or the first
  present failed), when validate returns a hard error the command gets that error entry
  and nothing else, and when the second present fails the command gets what validate
  published and the error of accept-changes, if any: in both cases no protocol outcome,
  neither \<open>Presented\<close> nor \<open>Validated\<close>, is among its results.
\<close>

theorem presentOrValidate_no_outcome:
  fixes env :: env and s :: engine and d :: int and t :: "int option"
  defines "h1 \<equiv> calls s @ [SetExpectedPresentTime d t]"
  defines "m \<equiv> env h1 (MustValidateDisplay d)"
  defines "h2 \<equiv> h1 @ [MustValidateDisplay d]"
  defines "p1 \<equiv> env h2 (PresentDisplay d)"
  defines "h3 \<equiv> h2 @ (if boolOut m then [] else [PresentDisplay d])"
  defines "v \<equiv> env h3 (ValidateDisplay d)"
  defines "h4 \<equiv> h3 @ [ValidateDisplay d, SetDisplayMustValidateState d False]"
  defines "q \<equiv> env h4 (GetHasClientComposition d)"
  defines "a \<equiv> env (h4 @ [GetHasClientComposition d]) (AcceptDisplayChanges d)"
  defines "p2 \<equiv> env (h4 @ [GetHasClientComposition d, AcceptDisplayChanges d]) (PresentDisplay d)"
  defines "s' \<equiv> executePresentOrValidateDisplay env d t s"
  assumes fallback: "boolOut m \<or> status p1 \<noteq> HWC2_ERROR_NONE"
  shows "(status v \<noteq> HWC2_ERROR_NONE \<and> status v \<noteq> HWC2_ERROR_HAS_CHANGES \<longrightarrow>
            filter isProtocolOutcome (newResults s s') = [] \<and>
            newResults s s' = [CommandError (mCommandIndex s) (status v)]) \<and>
         (status v = HWC2_ERROR_NONE \<and> \<not> (status q = HWC2_ERROR_NONE \<and> boolOut q) \<and>
          status p2 \<noteq> HWC2_ERROR_NONE \<longrightarrow>
            filter isProtocolOutcome (newResults s s') = [] \<and>
            newResults s s' =
              [ChangedCompositionTypes d (changedLayers v) (compositionTypes v),
               DisplayRequest d (displayRequestMask v) (requestedLayers v) (requestMasks v)] @
              (if status a \<noteq> 0 then [CommandError (mCommandIndex s) (status a)] else []))"
proof -
  have fb: "boolOut (env (calls s @ [SetExpectedPresentTime d t]) (MustValidateDisplay d)) \<or>
      status (env ((calls s @ [SetExpectedPresentTime d t]) @ [MustValidateDisplay d]) (PresentDisplay d)) \<noteq> 0"
    using fallback by (simp add: h1_def h2_def m_def p1_def HWC2_ERROR_NONE_def)
  have hard: "filter isProtocolOutcome (newResults s s') = [] \<and>
      newResults s s' = [CommandError (mCommandIndex s) (status v)]"
    if "status v \<noteq> HWC2_ERROR_NONE" and "status v \<noteq> HWC2_ERROR_HAS_CHANGES"
    using presentOrValidate_hard_error [OF fb] that
    unfolding s'_def v_def h3_def h2_def h1_def m_def
    by (simp add: newResults_def)
  have second: "filter isProtocolOutcome (newResults s s') = [] \<and>
      newResults s s' =
        [ChangedCompositionTypes d (changedLayers v) (compositionTypes v),
         DisplayRequest d (displayRequestMask v) (requestedLayers v) (requestMasks v)] @
        (if status a \<noteq> 0 then [CommandError (mCommandIndex s) (status a)] else [])"
    if "status v = HWC2_ERROR_NONE" and "\<not> (status q = HWC2_ERROR_NONE \<and> boolOut q)"
      and "status p2 \<noteq> HWC2_ERROR_NONE"
    using presentOrValidate_second_present [OF fb] that
    unfolding s'_def v_def q_def a_def p2_def h4_def h3_def h2_def h1_def m_def
    by (simp add: newResults_def HWC2_ERROR_NONE_def)
  from hard second show ?thesis
    by blast
qed

theorem presentOrValidate_no_outcome_witness:
  "(boolOut (envValidateFails (calls idle @ [SetExpectedPresentTime 1 None]) (MustValidateDisplay 1)) \<or>
    status (envValidateFails ((calls idle @ [SetExpectedPresentTime 1 None]) @ [MustValidateDisplay 1])
      (PresentDisplay 1)) \<noteq> HWC2_ERROR_NONE) \<and>
   filter isProtocolOutcome (newResults idle (executePresentOrValidateDisplay envValidateFails 1 None idle)) = [] \<and>
   newResults idle (executePresentOrValidateDisplay envValidateFails 1 None idle) = [CommandError 0 2] \<and>
   (boolOut (envPresentFails (calls idle @ [SetExpectedPresentTime 1 None]) (MustValidateDisplay 1)) \<or>
    status (envPresentFails ((calls idle @ [SetExpectedPresentTime 1 None]) @ [MustValidateDisplay 1])
      (PresentDisplay 1)) \<noteq> HWC2_ERROR_NONE) \<and>
   filter isProtocolOutcome (newResults idle (executePresentOrValidateDisplay envPresentFails 1 None idle)) = [] \<and>
   newResults idle (executePresentOrValidateDisplay envPresentFails 1 None idle) =
     [ChangedCompositionTypes 1 [] [], DisplayRequest 1 0 [] []]"
proof -
  have a: "boolOut (envValidateFails (calls idle @ [SetExpectedPresentTime 1 None]) (MustValidateDisplay 1)) \<or>
    status (envValidateFails ((calls idle @ [SetExpectedPresentTime 1 None]) @ [MustValidateDisplay 1])
      (PresentDisplay 1)) \<noteq> HWC2_ERROR_NONE"
    by (simp add: envValidateFails_def scripted_def flagged_def replyOk_def)
  have b: "boolOut (envPresentFails (calls idle @ [SetExpectedPresentTime 1 None]) (MustValidateDisplay 1)) \<or>
    status (envPresentFails ((calls idle @ [SetExpectedPresentTime 1 None]) @ [MustValidateDisplay 1])
      (PresentDisplay 1)) \<noteq> HWC2_ERROR_NONE"
    by (simp add: envPresentFails_def scripted_def failed_def replyOk_def HWC2_ERROR_NONE_def)
  have "filter isProtocolOutcome (newResults idle (executePresentOrValidateDisplay envValidateFails 1 None idle)) = [] \<and>
    newResults idle (executePresentOrValidateDisplay envValidateFails 1 None idle) = [CommandError 0 2]"
    using presentOrValidate_no_outcome
        [where env = envValidateFails and s = idle and d = 1 and t = None, OF a]
    by (simp add: envValidateFails_def scripted_def replyOk_def failed_def flagged_def idle_def
        HWC2_ERROR_NONE_def HWC2_ERROR_HAS_CHANGES_def)
  moreover have "filter isProtocolOutcome (newResults idle (executePresentOrValidateDisplay envPresentFails 1 None idle)) = [] \<and>
    newResults idle (executePresentOrValidateDisplay envPresentFails 1 None idle) =
      [ChangedCompositionTypes 1 [] [], DisplayRequest 1 0 [] []]"
    using presentOrValidate_no_outcome
        [where env = envPresentFails and s = idle and d = 1 and t = None, OF b]
    by (simp add: envPresentFails_def scripted_def replyOk_def failed_def flagged_def idle_def
        HWC2_ERROR_NONE_def HWC2_ERROR_HAS_CHANGES_def)
  ultimately show ?thesis
    using a b by simp
qed

subsection \<open>Validate\<close>

text \<open>
  C4, as the code has it: every validate invocation calls the hardware validate and then
  clears the must-validate flag of the display, whatever the status. On the statuses
  "no changes needed" and "has changes" it publishes the changed composition types and
  the display requests; on any other status it records that status as an error against
  the current command index and publishes nothing. It returns the status.
\<close>

theorem validate_publishes_or_records:
  fixes env :: env and s :: engine and d :: int
  defines "v \<equiv> env (calls s) (ValidateDisplay d)"
  defines "s' \<equiv> snd (executeValidateDisplayInternal env d s)"
  shows "fst (executeValidateDisplayInternal env d s) = status v \<and>
         newCalls s s' = [ValidateDisplay d, SetDisplayMustValidateState d False] \<and>
         newResults s s' =
           (if status v = HWC2_ERROR_NONE \<or> status v = HWC2_ERROR_HAS_CHANGES
            then [ChangedCompositionTypes d (changedLayers v) (compositionTypes v),
                  DisplayRequest d (displayRequestMask v) (requestedLayers v) (requestMasks v)]
            else [CommandError (mCommandIndex s) (status v)]) \<and>
         mCommandIndex s' = mCommandIndex s"
  unfolding v_def s'_def
  by (simp add: engine_defs newCalls_def newResults_def Let_def)

text \<open>
  The flag is cleared on a hard error too: with a validate that fails with status 2, the
  engine still calls \<^verbatim>\<open>setDisplayMustValidateState(display, false)\<close>.
\<close>

theorem validate_hard_error_clears_flag:
  "status (scripted [(ValidateDisplay 1, failed 2)] (calls idle) (ValidateDisplay 1)) \<noteq> HWC2_ERROR_NONE \<and>
   status (scripted [(ValidateDisplay 1, failed 2)] (calls idle) (ValidateDisplay 1)) \<noteq> HWC2_ERROR_HAS_CHANGES \<and>
   SetDisplayMustValidateState 1 False \<in>
     set (newCalls idle (snd (executeValidateDisplayInternal (scripted [(ValidateDisplay 1, failed 2)]) 1 idle)))"
  by (simp add: engine_defs newCalls_def input_defs Let_def)

subsection \<open>The sideband stream\<close>

text \<open>
  What \<^verbatim>\<open>executeSetLayerSidebandStream\<close> does: the hardware call is made when the
  resolution has failed, with whatever the failed resolution left in \<^verbatim>\<open>stream\<close>, and an
  error is recorded only when that hardware call fails as well. A resolution that
  succeeds is followed by no hardware call.
\<close>

lemma executeSetLayerSidebandStream_run:
  "executeSetLayerSidebandStream env d l sideband s =
     (let h1 = calls s @ [CreateReleaser False];
          r = env h1 (GetLayerSidebandStream d l (Handle sideband));
          h2 = h1 @ [GetLayerSidebandStream d l (Handle sideband)];
          r' = env h2 (SetLayerSidebandStream d l (bufferOut r))
      in s\<lparr>calls := h2 @ (if status r \<noteq> 0 then [SetLayerSidebandStream d l (bufferOut r)] else []),
           mWriter := mWriter s @
             (if status r \<noteq> 0 \<and> status r' \<noteq> 0 then [CommandError (mCommandIndex s) (status r')]
              else [])\<rparr>)"
  by (simp add: executeSetLayerSidebandStream_def invoke_def makeFromAidl_def setError_def
      emplace_def Let_def)

text \<open>
  C5: a sideband stream whose resolution fails with status 3, on a hardware abstraction
  whose \<^verbatim>\<open>setLayerSidebandStream\<close> succeeds: the hardware call is made and no error is
  recorded.
\<close>

theorem sideband_failed_resolution_reaches_hal:
  "executeSetLayerSidebandStream (scripted [(GetLayerSidebandStream 1 10 (Handle ([], [])), failed 3)]) 1 10 ([], []) idle =
     \<lparr>mCommandIndex = 0, mWriter = [],
       calls = [CreateReleaser False, GetLayerSidebandStream 1 10 (Handle ([], [])),
                SetLayerSidebandStream 1 10 nullptr]\<rparr>"
  by (simp add: executeSetLayerSidebandStream_def engine_defs input_defs Let_def)

subsection \<open>The dispatchers\<close>

lemma dispatchLayerCommands_foldl:
  "dispatchLayerCommands env d lcs s = foldl (\<lambda>s' layerCmd. dispatchLayerCommand env d layerCmd s') s lcs"
  by (induction lcs arbitrary: s) simp_all

lemma foldl_optional:
  "foldl (\<lambda>s' operation. operation s') s (case field of None \<Rightarrow> [] | Some v \<Rightarrow> [f v]) =
   DISPATCH_DISPLAY_COMMAND field f s"
  by (cases field) (simp_all add: DISPATCH_DISPLAY_COMMAND_def)

lemma foldl_flag:
  "foldl (\<lambda>s' operation. operation s') s (if field then [f] else []) =
   DISPATCH_DISPLAY_BOOL_COMMAND field f s"
  by (simp add: DISPATCH_DISPLAY_BOOL_COMMAND_def)

lemma foldl_flag_data:
  "foldl (\<lambda>s' operation. operation s') s (if field then [f] else []) =
   DISPATCH_DISPLAY_BOOL_COMMAND_AND_DATA field f s"
  by (simp add: DISPATCH_DISPLAY_BOOL_COMMAND_AND_DATA_def)

text \<open>
  C7: the display command dispatcher is the spec's: all layer commands in list order
  first, then the operation of every populated display-level field in the order colour
  transform, client target, output buffer, brightness, validate, accept changes,
  present, present-or-validate. Each field counts on its own, so a command that sets
  several of validate, present and present-or-validate has all of them applied.
\<close>

theorem dispatchDisplayCommand_order:
  "dispatchDisplayCommand env command s = spec_dispatchDisplayCommand env command s"
  unfolding dispatchDisplayCommand_def spec_dispatchDisplayCommand_def displayOperations_def
    Let_def foldl_append foldl_optional dispatchLayerCommands_foldl
    DISPATCH_DISPLAY_BOOL_COMMAND_AND_DATA_def
  by (simp add: foldl_flag DISPATCH_DISPLAY_BOOL_COMMAND_def)

theorem dispatchDisplayCommand_order_witness:
  "dispatchDisplayCommand (scripted []) commandAll idle =
     spec_dispatchDisplayCommand (scripted []) commandAll idle \<and>
   calls (dispatchDisplayCommand (scripted []) commandAll idle) =
     [SetLayerZOrder 1 10 5, SetLayerBlendMode 1 11 1,
      SetColorTransform 1 [],
      CreateReleaser True, GetDisplayClientTarget 1 0 True nullptr, SetClientTarget 1 nullptr (- 1) 0 [],
      CreateReleaser True, GetDisplayOutputBuffer 1 1 True nullptr, SetOutputBuffer 1 nullptr (- 1),
      SetDisplayBrightness 1 7,
      SetExpectedPresentTime 1 None, ValidateDisplay 1, SetDisplayMustValidateState 1 False,
      AcceptDisplayChanges 1,
      PresentDisplay 1,
      SetExpectedPresentTime 1 None, MustValidateDisplay 1, PresentDisplay 1]"
  by (rule conjI [OF dispatchDisplayCommand_order])
    (simp add: dispatch_defs commandAll_def layer_setter_defs engine_defs input_defs Let_def)

text \<open>
  C8: a layer command none of whose dispatched fields is populated leaves the engine as
  it was: no call on the hardware abstraction (no call at all) and no result entry.
\<close>

theorem dispatchLayerCommand_no_fields:
  assumes "cursorPosition command = None" and "buffer command = None" and "damage command = None"
    and "blendMode command = None" and "color command = None" and "composition command = None"
    and "dataspace command = None" and "displayFrame command = None"
    and "planeAlpha command = None" and "sidebandStream command = None"
    and "sourceCrop command = None" and "transform command = None"
    and "visibleRegion command = None" and "z command = None" and "colorTransform command = None"
    and "perFrameMetadata command = None" and "perFrameMetadataBlob command = None"
  shows "dispatchLayerCommand env d command s = s \<and>
         newCalls s (dispatchLayerCommand env d command s) = [] \<and>
         filter isHalCall (newCalls s (dispatchLayerCommand env d command s)) = [] \<and>
         newResults s (dispatchLayerCommand env d command s) = []"
  using assms
  by (simp add: dispatchLayerCommand_def DISPATCH_LAYER_COMMAND_def newCalls_def newResults_def)

theorem dispatchLayerCommand_no_fields_witness:
  "dispatchLayerCommand (scripted []) 1 (emptyLayerCommand 10) idle = idle \<and>
   newCalls idle (dispatchLayerCommand (scripted []) 1 (emptyLayerCommand 10) idle) = [] \<and>
   filter isHalCall (newCalls idle (dispatchLayerCommand (scripted []) 1 (emptyLayerCommand 10) idle)) = [] \<and>
   newResults idle (dispatchLayerCommand (scripted []) 1 (emptyLayerCommand 10) idle) = []"
  by (rule dispatchLayerCommand_no_fields) (simp_all add: emptyLayerCommand_def)

text \<open>
  C9: for a display command with the present flag set and the present-or-validate flag
  clear, when the hardware present returns a status other than success, the results are
  those of the same command without the present flag: the failed present adds one call
  and no entry, neither an error nor a fence.
\<close>

theorem failed_present_is_invisible:
  fixes env :: env and command :: DisplayCommand and s :: engine
  defines "before \<equiv> dispatchDisplayCommand env (command\<lparr>presentDisplay := False\<rparr>) s"
  defines "after \<equiv> dispatchDisplayCommand env command s"
  assumes "presentDisplay command" and "\<not> presentOrValidateDisplay command"
    and "status (env (calls before) (PresentDisplay (display command))) \<noteq> HWC2_ERROR_NONE"
  shows "mWriter after = mWriter before \<and>
         calls after = calls before @ [PresentDisplay (display command)] \<and>
         mCommandIndex after = mCommandIndex before"
  using assms(3-)
  unfolding before_def after_def dispatchDisplayCommand_def Let_def
  by (simp add: DISPATCH_DISPLAY_BOOL_COMMAND_def [of True] DISPATCH_DISPLAY_BOOL_COMMAND_def [of False]
      DISPATCH_DISPLAY_BOOL_COMMAND_AND_DATA_def [of False] executePresentDisplay_run Let_def
      HWC2_ERROR_NONE_def)

lemma dispatch_commandPresent_without_flag:
  "dispatchDisplayCommand envBrightnessAndPresentFail (commandPresent\<lparr>presentDisplay := False\<rparr>) idle =
     \<lparr>mCommandIndex = 0, mWriter = [CommandError 0 4], calls = [SetDisplayBrightness 1 7]\<rparr>"
  by (simp add: commandPresent_def envBrightnessAndPresentFail_def dispatch_defs engine_defs input_defs)

theorem failed_present_is_invisible_witness:
  "presentDisplay commandPresent \<and> \<not> presentOrValidateDisplay commandPresent \<and>
   status (envBrightnessAndPresentFail
     (calls (dispatchDisplayCommand envBrightnessAndPresentFail (commandPresent\<lparr>presentDisplay := False\<rparr>) idle))
     (PresentDisplay (display commandPresent))) \<noteq> HWC2_ERROR_NONE \<and>
   mWriter (dispatchDisplayCommand envBrightnessAndPresentFail commandPresent idle) = [CommandError 0 4] \<and>
   calls (dispatchDisplayCommand envBrightnessAndPresentFail commandPresent idle) =
     [SetDisplayBrightness 1 7, PresentDisplay 1]"
proof -
  have a: "presentDisplay commandPresent" and b: "\<not> presentOrValidateDisplay commandPresent"
    by (simp_all add: commandPresent_def emptyDisplayCommand_def)
  have c: "status (envBrightnessAndPresentFail
     (calls (dispatchDisplayCommand envBrightnessAndPresentFail (commandPresent\<lparr>presentDisplay := False\<rparr>) idle))
     (PresentDisplay (display commandPresent))) \<noteq> HWC2_ERROR_NONE"
    unfolding dispatch_commandPresent_without_flag
    by (simp add: envBrightnessAndPresentFail_def scripted_def failed_def replyOk_def
        commandPresent_def emptyDisplayCommand_def HWC2_ERROR_NONE_def)
  have d: "display commandPresent = 1"
    by (simp add: commandPresent_def emptyDisplayCommand_def)
  show ?thesis
    using a b c failed_present_is_invisible
        [where env = envBrightnessAndPresentFail and command = commandPresent and s = idle, OF a b c]
    by (simp add: dispatch_commandPresent_without_flag d)
qed

subsection \<open>The return value of the batch\<close>

text \<open>
  C10: \<^verbatim>\<open>execute\<close> returns 0 for every batch and every behaviour of the collaborators;
  what went wrong is in the result list, which is the content of the writer after the
  loop (\<open>execute_batch3\<close> returns 0 with three errors in the list).
\<close>

theorem execute_returns_zero:
  "fst (execute env commands s) = 0 \<and>
   fst (snd (execute env commands s)) = mWriter (executeLoop env commands (s\<lparr>mCommandIndex := 0\<rparr>))"
  by (simp add: execute_def getPendingCommandResults_def Let_def)

end
